theory Spec2Isabelle
  imports Main
begin

section \<open>Book management service: data model\<close>

text \<open>
  The service of \<^verbatim>\<open>main.py\<close> maps five HTTP routes to operations on one table,
  \<^verbatim>\<open>books\<close>. The embedding follows the source top-down: the two schema classes, the
  table with the constraints its columns declare, the session operations the handlers
  call, the five handlers, and the request-scoped session of \<^verbatim>\<open>get_db\<close>.
\<close>

subsection \<open>Schema classes\<close>

text \<open>
  \<^verbatim>\<open>class BookCreate(BaseModel)\<close>: five required fields, no default and no validator.
\<close>

record BookCreate =
  title :: string
  author :: string
  published_year :: int
  genre :: string
  isbn :: string

text \<open>
  \<^verbatim>\<open>class BookOut(BookCreate)\<close> adds the field \<^verbatim>\<open>id\<close> (named \<open>id_out\<close> here, since
  \<open>id\<close> is the identity function of HOL).
\<close>

record BookOut = BookCreate +
  id_out :: int

subsection \<open>The table\<close>

text \<open>
  \<^verbatim>\<open>class Book(Base)\<close>: one row of \<^verbatim>\<open>books\<close>. The columns carry the suffix \<open>_col\<close> to
  keep them apart from the schema fields of the same name.
\<close>

record Book =
  id_col :: int
  title_col :: string
  author_col :: string
  published_year_col :: int
  genre_col :: string
  isbn_col :: string

text \<open>
  The stored state: the rows in storage order and the counter from which the engine
  assigns the next primary key.
\<close>

record database =
  books :: "Book list"
  auto_increment :: int

definition empty_database :: database where
  "empty_database = \<lparr>books = [], auto_increment = 1\<rparr>"

text \<open>
  What the column declarations promise of every stored state: \<^verbatim>\<open>primary_key=True\<close> on
  \<^verbatim>\<open>id\<close>, \<^verbatim>\<open>unique=True\<close> on \<^verbatim>\<open>isbn\<close>, and keys handed out below the counter.
\<close>

definition constraints_hold :: "database \<Rightarrow> bool" where
  "constraints_hold db \<longleftrightarrow>
     distinct (map id_col (books db)) \<and>
     distinct (map isbn_col (books db)) \<and>
     (\<forall>r \<in> set (books db). id_col r < auto_increment db)"

text \<open>
  \<^verbatim>\<open>String(255)\<close>, \<^verbatim>\<open>String(255)\<close>, \<^verbatim>\<open>String(100)\<close>, \<^verbatim>\<open>String(13)\<close>: the declared widths
  of the text columns; \<^verbatim>\<open>Integer\<close>: the engine's four-byte signed integer column. A
  text wider than its column and a number outside the range of its column are refused
  by the engine (a data error), while the schema puts no bound on either.
\<close>

definition fits_columns :: "BookCreate \<Rightarrow> bool" where
  "fits_columns b \<longleftrightarrow>
     length (title b) \<le> 255 \<and> length (author b) \<le> 255 \<and>
     - 2147483648 \<le> published_year b \<and> published_year b \<le> 2147483647 \<and>
     length (genre b) \<le> 100 \<and> length (isbn b) \<le> 13"

subsection \<open>Exceptions and responses\<close>

text \<open>
  The exceptions a handler can leave with: the \<^verbatim>\<open>HTTPException\<close> the handlers raise
  themselves, the rejection of a request body by the schema, and the failures of the
  storage layer, which no handler catches.
\<close>

datatype exn =
    HTTPException nat string
  | RequestValidationError
  | IntegrityError
  | DataError
  | InvalidRequestError

datatype json =
    JNull
  | JBool bool
  | JInt int
  | JStr string
  | JArr "json list"
  | JObj "(string \<times> json) list"

datatype response =
    OK json
  | HTTPError nat json
  | ValidationError
  | InternalServerError

fun status_code :: "response \<Rightarrow> nat" where
  "status_code (OK _) = 200"
| "status_code (HTTPError code _) = code"
| "status_code ValidationError = 422"
| "status_code InternalServerError = 500"

text \<open>
  How an outcome of a handler reaches the client: a returned value as 200, an
  \<^verbatim>\<open>HTTPException\<close> as its status with the body \<^verbatim>\<open>{"detail": ...}\<close>, a rejected body as
  a client error, and anything else, uncaught, as a server error.
\<close>

fun respond :: "exn + json \<Rightarrow> response" where
  "respond (Inr body) = OK body"
| "respond (Inl (HTTPException code detail)) = HTTPError code (JObj [(''detail'', JStr detail)])"
| "respond (Inl RequestValidationError) = ValidationError"
| "respond (Inl _) = InternalServerError"

subsection \<open>Rendering\<close>

text \<open>Python's \<^verbatim>\<open>str\<close> of an integer, as the f-string of \<^verbatim>\<open>delete_book\<close> uses it.\<close>

fun str_nat :: "nat \<Rightarrow> string" where
  "str_nat n = (if n < 10 then [''0123456789'' ! n]
                else str_nat (n div 10) @ [''0123456789'' ! (n mod 10)])"

declare str_nat.simps [simp del]

definition str_int :: "int \<Rightarrow> string" where
  "str_int i = (if i < 0 then CHR ''-'' # str_nat (nat (- i)) else str_nat (nat i))"

text \<open>
  Reading a decimal numeral: the value of one digit, of a run of digits, and of a run
  of digits with an optional minus sign in front.
\<close>

definition digit_of :: "char \<Rightarrow> nat option" where
  "digit_of c =
     map_of [(CHR ''0'', 0), (CHR ''1'', 1), (CHR ''2'', 2), (CHR ''3'', 3), (CHR ''4'', 4),
             (CHR ''5'', 5), (CHR ''6'', 6), (CHR ''7'', 7), (CHR ''8'', 8), (CHR ''9'', 9)] c"

fun decimal_acc :: "nat \<Rightarrow> string \<Rightarrow> nat option" where
  "decimal_acc a [] = Some a"
| "decimal_acc a (c # cs) =
     (case digit_of c of None \<Rightarrow> None | Some d \<Rightarrow> decimal_acc (10 * a + d) cs)"

fun int_of_str :: "string \<Rightarrow> int option" where
  "int_of_str [] = None"
| "int_of_str (c # cs) =
     (if c = CHR ''-''
      then (if cs = [] then None else map_option (\<lambda>n. - int n) (decimal_acc 0 cs))
      else map_option int (decimal_acc 0 (c # cs)))"

text \<open>\<^verbatim>\<open>orm_mode = True\<close>: an output object is read off a row attribute by attribute.\<close>

definition from_orm :: "Book \<Rightarrow> BookOut" where
  "from_orm r = \<lparr>title = title_col r, author = author_col r,
                 published_year = published_year_col r, genre = genre_col r,
                 isbn = isbn_col r, id_out = id_col r\<rparr>"

definition to_json :: "BookOut \<Rightarrow> json" where
  "to_json b = JObj [(''title'', JStr (title b)), (''author'', JStr (author b)),
                     (''published_year'', JInt (published_year b)),
                     (''genre'', JStr (genre b)), (''isbn'', JStr (isbn b)),
                     (''id'', JInt (id_out b))]"

section \<open>Schema validation\<close>

text \<open>
  The request body is checked against \<^verbatim>\<open>BookCreate\<close> before the handler runs. The check
  of one value against a primitive type belongs to the schema library, not to this
  repository, so the two decoders are parameters: \<open>str_type\<close> for the annotation
  \<^verbatim>\<open>str\<close> and \<open>int_type\<close> for \<^verbatim>\<open>int\<close>. The class itself fixes which fields are read,
  that all five are required and that nothing else is checked.
\<close>

fun body_field :: "string \<Rightarrow> json \<Rightarrow> json option" where
  "body_field k (JObj kvs) = map_of (rev kvs) k"
| "body_field k _ = None"

definition validate :: "(json \<Rightarrow> string option) \<Rightarrow> (json \<Rightarrow> int option) \<Rightarrow> json \<Rightarrow> BookCreate option" where
  "validate str_type int_type body =
     (case (Option.bind (body_field ''title'' body) str_type,
            Option.bind (body_field ''author'' body) str_type,
            Option.bind (body_field ''published_year'' body) int_type,
            Option.bind (body_field ''genre'' body) str_type,
            Option.bind (body_field ''isbn'' body) str_type) of
        (Some t, Some a, Some y, Some g, Some i) \<Rightarrow>
          Some \<lparr>title = t, author = a, published_year = y, genre = g, isbn = i\<rparr>
      | _ \<Rightarrow> None)"

text \<open>
  Two decoders to run the model with. \<open>strict_str\<close> reads a JSON string and nothing
  else. \<open>lax_int\<close> reads a JSON integer and, as the library's default mode does, also
  a boolean (as 1 or 0) and a string that spells a decimal numeral; of the spellings of
  a numeral in a string only digits with an optional minus sign are modelled.
\<close>

fun strict_str :: "json \<Rightarrow> string option" where
  "strict_str (JStr s) = Some s"
| "strict_str _ = None"

fun lax_int :: "json \<Rightarrow> int option" where
  "lax_int (JInt n) = Some n"
| "lax_int (JBool b) = Some (if b then 1 else 0)"
| "lax_int (JStr s) = int_of_str s"
| "lax_int _ = None"

section \<open>Session operations\<close>

text \<open>\<^verbatim>\<open>db.query(Book).filter(Book.id == book_id).first()\<close>\<close>

definition query_first :: "int \<Rightarrow> database \<Rightarrow> Book option" where
  "query_first book_id db = find (\<lambda>r. id_col r = book_id) (books db)"

text \<open>
  \<^verbatim>\<open>db.add(db_book); db.commit()\<close>: the INSERT. The engine refuses a value wider than
  its column and a row that repeats a stored \<^verbatim>\<open>isbn\<close> or primary key; otherwise the row
  is appended under the next key. A refused statement leaves the rows as they were.
\<close>

definition commit_add :: "BookCreate \<Rightarrow> database \<Rightarrow> exn + int \<times> database" where
  "commit_add b db =
     (if \<not> fits_columns b then Inl DataError
      else if isbn b \<in> set (map isbn_col (books db))
              \<or> auto_increment db \<in> set (map id_col (books db)) then Inl IntegrityError
      else Inr (auto_increment db,
                \<lparr>books = books db @
                    [\<lparr>id_col = auto_increment db, title_col = title b, author_col = author b,
                      published_year_col = published_year b, genre_col = genre b,
                      isbn_col = isbn b\<rparr>],
                 auto_increment = auto_increment db + 1\<rparr>))"

text \<open>The five assignments of \<^verbatim>\<open>update_book\<close> to the attributes of the row.\<close>

definition assign_fields :: "BookCreate \<Rightarrow> Book \<Rightarrow> Book" where
  "assign_fields b r = r\<lparr>title_col := title b, author_col := author b,
                          published_year_col := published_year b, genre_col := genre b,
                          isbn_col := isbn b\<rparr>"

text \<open>
  \<^verbatim>\<open>db.commit()\<close> after the assignments: the UPDATE of the row with primary key \<open>pk\<close>,
  refused when a value is too wide or another row holds the new \<^verbatim>\<open>isbn\<close>.
\<close>

definition commit_update :: "int \<Rightarrow> BookCreate \<Rightarrow> database \<Rightarrow> exn + database" where
  "commit_update pk b db =
     (if \<not> fits_columns b then Inl DataError
      else if \<exists>r \<in> set (books db). id_col r \<noteq> pk \<and> isbn_col r = isbn b then Inl IntegrityError
      else Inr (db\<lparr>books := map (\<lambda>r. if id_col r = pk then assign_fields b r else r) (books db)\<rparr>))"

text \<open>\<^verbatim>\<open>db.delete(db_book); db.commit()\<close>: the DELETE of the row with primary key \<open>pk\<close>.\<close>

definition commit_delete :: "int \<Rightarrow> database \<Rightarrow> database" where
  "commit_delete pk db = db\<lparr>books := filter (\<lambda>r. id_col r \<noteq> pk) (books db)\<rparr>"

text \<open>\<^verbatim>\<open>db.refresh(db_book)\<close>: the row is read again by its primary key.\<close>

definition refresh :: "int \<Rightarrow> database \<Rightarrow> exn + Book" where
  "refresh pk db = (case query_first pk db of None \<Rightarrow> Inl InvalidRequestError | Some r \<Rightarrow> Inr r)"

section \<open>Route handlers\<close>

definition not_found :: exn where
  "not_found = HTTPException 404 ''Book not found''"

definition get_books :: "database \<Rightarrow> BookOut list" where
  "get_books db = map from_orm (books db)"

definition get_book :: "int \<Rightarrow> database \<Rightarrow> exn + BookOut" where
  "get_book book_id db =
     (case query_first book_id db of
        None \<Rightarrow> Inl not_found
      | Some book \<Rightarrow> Inr (from_orm book))"

definition create_book :: "BookCreate \<Rightarrow> database \<Rightarrow> (exn + BookOut) \<times> database" where
  "create_book book db =
     (case commit_add book db of
        Inl e \<Rightarrow> (Inl e, db)
      | Inr (pk, db') \<Rightarrow>
          (case refresh pk db' of
             Inl e \<Rightarrow> (Inl e, db')
           | Inr db_book \<Rightarrow> (Inr (from_orm db_book), db')))"

definition update_book :: "int \<Rightarrow> BookCreate \<Rightarrow> database \<Rightarrow> (exn + BookOut) \<times> database" where
  "update_book book_id updated_book db =
     (case query_first book_id db of
        None \<Rightarrow> (Inl not_found, db)
      | Some db_book \<Rightarrow>
          (case commit_update (id_col db_book) updated_book db of
             Inl e \<Rightarrow> (Inl e, db)
           | Inr db' \<Rightarrow>
               (case refresh (id_col db_book) db' of
                  Inl e \<Rightarrow> (Inl e, db')
                | Inr r \<Rightarrow> (Inr (from_orm r), db'))))"

definition deleted_message :: "int \<Rightarrow> json" where
  "deleted_message book_id =
     JObj [(''message'', JStr (''Book with ID '' @ str_int book_id @ '' deleted''))]"

definition delete_book :: "int \<Rightarrow> database \<Rightarrow> (exn + json) \<times> database" where
  "delete_book book_id db =
     (case query_first book_id db of
        None \<Rightarrow> (Inl not_found, db)
      | Some db_book \<Rightarrow> (Inr (deleted_message book_id), commit_delete (id_col db_book) db))"

section \<open>Requests and the request-scoped session\<close>

datatype request =
    GetBooks
  | GetBook int
  | PostBooks json
  | PutBook int json
  | DeleteBook int

text \<open>
  One request against the table: the body, where the route has one, is validated
  first, and only a validated body reaches the handler.
\<close>

definition endpoint ::
  "(json \<Rightarrow> string option) \<Rightarrow> (json \<Rightarrow> int option) \<Rightarrow> request \<Rightarrow> database \<Rightarrow> (exn + json) \<times> database" where
  "endpoint str_type int_type req db =
     (case req of
        GetBooks \<Rightarrow> (Inr (JArr (map to_json (get_books db))), db)
      | GetBook book_id \<Rightarrow> (map_sum (\<lambda>e. e) to_json (get_book book_id db), db)
      | PostBooks body \<Rightarrow>
          (case validate str_type int_type body of
             None \<Rightarrow> (Inl RequestValidationError, db)
           | Some book \<Rightarrow>
               (map_sum (\<lambda>e. e) to_json (fst (create_book book db)), snd (create_book book db)))
      | PutBook book_id body \<Rightarrow>
          (case validate str_type int_type body of
             None \<Rightarrow> (Inl RequestValidationError, db)
           | Some updated_book \<Rightarrow>
               (map_sum (\<lambda>e. e) to_json (fst (update_book book_id updated_book db)),
                snd (update_book book_id updated_book db)))
      | DeleteBook book_id \<Rightarrow> delete_book book_id db)"

text \<open>
  The process around the table: the sessions made so far and the log of their
  openings and closings.
\<close>

datatype session_event = SessionOpened nat | SessionClosed nat

record server =
  store :: database
  sessions_made :: nat
  session_log :: "session_event list"

text \<open>
  \<^verbatim>\<open>get_db\<close>: \<^verbatim>\<open>db = SessionLocal()\<close>, then \<^verbatim>\<open>yield db\<close> inside \<^verbatim>\<open>try\<close>, then
  \<^verbatim>\<open>db.close()\<close> in \<^verbatim>\<open>finally\<close>. The code that runs at the \<^verbatim>\<open>yield\<close> is the argument
  \<open>during\<close>; its outcome, a value or an exception, passes through the \<^verbatim>\<open>finally\<close> block.
\<close>

definition get_db :: "(database \<Rightarrow> (exn + 'a) \<times> database) \<Rightarrow> server \<Rightarrow> (exn + 'a) \<times> server" where
  "get_db during s =
     (let sid = sessions_made s;
          opened = s\<lparr>sessions_made := Suc sid,
                     session_log := session_log s @ [SessionOpened sid]\<rparr>;
          outcome = during (store opened)
      in (case fst outcome of
            Inl e \<Rightarrow> (Inl e, opened\<lparr>store := snd outcome,
                                    session_log := session_log opened @ [SessionClosed sid]\<rparr>)
          | Inr v \<Rightarrow> (Inr v, opened\<lparr>store := snd outcome,
                                    session_log := session_log opened @ [SessionClosed sid]\<rparr>)))"

definition serve ::
  "(json \<Rightarrow> string option) \<Rightarrow> (json \<Rightarrow> int option) \<Rightarrow> request \<Rightarrow> server \<Rightarrow> response \<times> server" where
  "serve str_type int_type req s =
     (let done = get_db (endpoint str_type int_type req) s
      in (respond (fst done), snd done))"

section \<open>Sample data\<close>

text \<open>
  The book of the specification's examples and the states it leads to, used to run the
  model on concrete input.
\<close>

definition sample_book :: BookCreate where
  "sample_book = \<lparr>title = ''A'', author = ''B'', published_year = 2000,
                   genre = ''Fiction'', isbn = ''1111111111111''\<rparr>"


definition sample_book3 :: BookCreate where
  "sample_book3 = \<lparr>title = ''A3'', author = ''B3'', published_year = 1999,
                    genre = ''Poetry'', isbn = ''3333333333333''\<rparr>"

definition sample_row :: Book where
  "sample_row = \<lparr>id_col = 1, title_col = ''A'', author_col = ''B'',
                  published_year_col = 2000, genre_col = ''Fiction'',
                  isbn_col = ''1111111111111''\<rparr>"

definition sample_row2 :: Book where
  "sample_row2 = \<lparr>id_col = 2, title_col = ''A2'', author_col = ''B2'',
                   published_year_col = 2001, genre_col = ''Essay'',
                   isbn_col = ''2222222222222''\<rparr>"

definition one_book_db :: database where
  "one_book_db = \<lparr>books = [sample_row], auto_increment = 2\<rparr>"

definition two_books_db :: database where
  "two_books_db = \<lparr>books = [sample_row, sample_row2], auto_increment = 3\<rparr>"

definition sample_body :: json where
  "sample_body = JObj [(''title'', JStr ''A''), (''author'', JStr ''B''),
                       (''published_year'', JInt 2000), (''genre'', JStr ''Fiction''),
                       (''isbn'', JStr ''1111111111111'')]"


definition untitled_body :: json where
  "untitled_body = JObj [(''title'', JStr []), (''author'', JStr []),
                         (''published_year'', JInt 2000), (''genre'', JStr ''Fiction''),
                         (''isbn'', JStr ''1111111111111'')]"

definition idle_server :: server where
  "idle_server = \<lparr>store = one_book_db, sessions_made = 0, session_log = []\<rparr>"

section \<open>Properties of the session operations\<close>

lemma query_first_None: "query_first i db = None \<longleftrightarrow> i \<notin> set (map id_col (books db))"
  by (auto simp: query_first_def find_None_iff)

lemma query_first_SomeD:
  "query_first i db = Some r \<Longrightarrow> r \<in> set (books db) \<and> id_col r = i"
  by (auto simp: query_first_def find_Some_iff)

lemma query_first_distinct:
  "distinct (map id_col (books db)) \<Longrightarrow> r \<in> set (books db) \<Longrightarrow> query_first (id_col r) db = Some r"
proof -
  assume d: "distinct (map id_col (books db))" and m: "r \<in> set (books db)"
  from m have "query_first (id_col r) db \<noteq> None"
    by (simp add: query_first_None)
  then obtain r' where s: "query_first (id_col r) db = Some r'"
    by blast
  with query_first_SomeD have "r' \<in> set (books db)" "id_col r' = id_col r"
    by blast+
  with d m have "r' = r"
    by (meson distinct_map inj_onD)
  with s show ?thesis by simp
qed

lemma find_append_fresh:
  "\<forall>x \<in> set xs. \<not> P x \<Longrightarrow> P y \<Longrightarrow> find P (xs @ [y]) = Some y"
  by (induction xs) auto

lemma find_map_assign:
  "(\<And>r. P (f r) = P r) \<Longrightarrow> find P (map (\<lambda>r. if P r then f r else r) xs) = map_option f (find P xs)"
  by (induction xs) auto

lemma id_col_assign_fields [simp]: "id_col (assign_fields b r) = id_col r"
  by (simp add: assign_fields_def)

lemma from_orm_assign_fields:
  "from_orm (assign_fields b r) =
     \<lparr>title = title b, author = author b, published_year = published_year b,
      genre = genre b, isbn = isbn b, id_out = id_col r\<rparr>"
  by (simp add: from_orm_def assign_fields_def)

lemma create_book_accepted:
  assumes "fits_columns b"
    and "isbn b \<notin> set (map isbn_col (books db))"
    and "auto_increment db \<notin> set (map id_col (books db))"
  shows "create_book b db =
           (Inr \<lparr>title = title b, author = author b, published_year = published_year b,
                 genre = genre b, isbn = isbn b, id_out = auto_increment db\<rparr>,
            \<lparr>books = books db @
               [\<lparr>id_col = auto_increment db, title_col = title b, author_col = author b,
                 published_year_col = published_year b, genre_col = genre b,
                 isbn_col = isbn b\<rparr>],
             auto_increment = auto_increment db + 1\<rparr>)"
proof -
  let ?row = "\<lparr>id_col = auto_increment db, title_col = title b, author_col = author b,
               published_year_col = published_year b, genre_col = genre b, isbn_col = isbn b\<rparr>"
  let ?db' = "\<lparr>books = books db @ [?row], auto_increment = auto_increment db + 1\<rparr>"
  from assms have add: "commit_add b db = Inr (auto_increment db, ?db')"
    by (simp add: commit_add_def)
  from assms(3) have "\<forall>x \<in> set (books db). \<not> id_col x = auto_increment db"
    by (metis imageI list.set_map)
  then have "find (\<lambda>r. id_col r = auto_increment db) (books db @ [?row]) = Some ?row"
    by (rule find_append_fresh) simp
  then have "refresh (auto_increment db) ?db' = Inr ?row"
    by (simp add: refresh_def query_first_def)
  with add show ?thesis
    by (simp add: create_book_def from_orm_def)
qed

lemma create_book_refused:
  assumes "\<not> fits_columns b \<or> isbn b \<in> set (map isbn_col (books db))
           \<or> auto_increment db \<in> set (map id_col (books db))"
  shows "create_book b db = (Inl DataError, db) \<or> create_book b db = (Inl IntegrityError, db)"
  using assms by (auto simp: create_book_def commit_add_def)

lemma constraints_fresh_key:
  "constraints_hold db \<Longrightarrow> auto_increment db \<notin> set (map id_col (books db))"
  by (auto simp: constraints_hold_def)

lemma update_book_accepted:
  assumes "query_first book_id db = Some r"
    and "fits_columns b"
    and "\<forall>r' \<in> set (books db). id_col r' \<noteq> book_id \<longrightarrow> isbn_col r' \<noteq> isbn b"
  shows "update_book book_id b db =
           (Inr \<lparr>title = title b, author = author b, published_year = published_year b,
                 genre = genre b, isbn = isbn b, id_out = book_id\<rparr>,
            db\<lparr>books := map (\<lambda>r. if id_col r = book_id then assign_fields b r else r) (books db)\<rparr>)"
proof -
  let ?db' = "db\<lparr>books := map (\<lambda>r. if id_col r = book_id then assign_fields b r else r) (books db)\<rparr>"
  from assms(1) have idr: "id_col r = book_id"
    using query_first_SomeD by blast
  from assms(2,3) have upd: "commit_update book_id b db = Inr ?db'"
    by (auto simp: commit_update_def)
  have "find (\<lambda>r. id_col r = book_id)
          (map (\<lambda>r. if id_col r = book_id then assign_fields b r else r) (books db))
        = map_option (assign_fields b) (find (\<lambda>r. id_col r = book_id) (books db))"
    by (rule find_map_assign) simp
  with assms(1) have "refresh book_id ?db' = Inr (assign_fields b r)"
    by (simp add: refresh_def query_first_def)
  with upd assms(1) idr show ?thesis
    by (simp add: update_book_def from_orm_assign_fields)
qed

lemma get_book_after_update:
  assumes "query_first book_id db = Some r"
  shows "get_book book_id (db\<lparr>books := map (\<lambda>r. if id_col r = book_id then assign_fields b r else r) (books db)\<rparr>)
         = Inr \<lparr>title = title b, author = author b, published_year = published_year b,
                genre = genre b, isbn = isbn b, id_out = book_id\<rparr>"
proof -
  from assms have idr: "id_col r = book_id"
    using query_first_SomeD by blast
  have "find (\<lambda>r. id_col r = book_id)
          (map (\<lambda>r. if id_col r = book_id then assign_fields b r else r) (books db))
        = map_option (assign_fields b) (find (\<lambda>r. id_col r = book_id) (books db))"
    by (rule find_map_assign) simp
  with assms idr show ?thesis
    by (simp add: get_book_def query_first_def from_orm_assign_fields)
qed

lemma update_book_absent:
  "query_first book_id db = None \<Longrightarrow> update_book book_id b db = (Inl not_found, db)"
  by (simp add: update_book_def)

lemma delete_book_absent:
  "query_first book_id db = None \<Longrightarrow> delete_book book_id db = (Inl not_found, db)"
  by (simp add: delete_book_def)

lemma query_first_after_delete:
  "query_first book_id (commit_delete book_id db) = None"
  by (auto simp: query_first_None commit_delete_def)


lemma str_int_1: "str_int 1 = ''1''"
  by (simp add: str_int_def str_nat.simps)

section \<open>The constraints of the table are kept\<close>

text \<open>
  Every handler leaves a table that satisfies its key constraints in a table that
  satisfies them: the rows an accepted statement writes are the ones the engine has
  checked, and a refused statement writes none.
\<close>

lemma map_id_col_assign:
  "map id_col (map (\<lambda>r. if id_col r = i then assign_fields b r else r) xs) = map id_col xs"
  by (induction xs) simp_all

lemma filter_other_rows_assign:
  "filter (\<lambda>r. id_col r \<noteq> i) (map (\<lambda>r. if id_col r = i then assign_fields b r else r) xs)
     = filter (\<lambda>r. id_col r \<noteq> i) xs"
  by (induction xs) simp_all

lemma filter_other_rows_delete:
  "filter (\<lambda>r. id_col r \<noteq> i) (filter (\<lambda>r. id_col r \<noteq> i) xs) = filter (\<lambda>r. id_col r \<noteq> i) xs"
  by simp

lemma isbn_col_assigned_rows:
  assumes "y \<in> set (map (\<lambda>r. if id_col r = i then assign_fields b r else r) xs)"
  shows "isbn_col y = isbn b \<or> (y \<in> set xs \<and> id_col y \<noteq> i)"
proof -
  from assms have "\<exists>x0 \<in> set xs. y = (if id_col x0 = i then assign_fields b x0 else x0)"
    by (simp only: set_map image_iff)
  then obtain x0 where m: "x0 \<in> set xs" and y: "y = (if id_col x0 = i then assign_fields b x0 else x0)"
    by blast
  show ?thesis
  proof (cases "id_col x0 = i")
    case True
    with y show ?thesis by (simp add: assign_fields_def)
  next
    case False
    with y m show ?thesis by simp
  qed
qed

lemma distinct_isbn_assign:
  assumes "distinct (map id_col xs)"
    and "distinct (map isbn_col xs)"
    and "\<forall>r \<in> set xs. id_col r \<noteq> i \<longrightarrow> isbn_col r \<noteq> isbn b"
  shows "distinct (map isbn_col (map (\<lambda>r. if id_col r = i then assign_fields b r else r) xs))"
  using assms
proof (induction xs)
  case Nil
  then show ?case by simp
next
  case (Cons a xs)
  let ?f = "\<lambda>r. if id_col r = i then assign_fields b r else r"
  from Cons.prems have ih: "distinct (map isbn_col (map ?f xs))"
    by (intro Cons.IH) simp_all
  have fresh: "isbn_col (?f a) \<notin> set (map isbn_col (map ?f xs))"
  proof
    assume "isbn_col (?f a) \<in> set (map isbn_col (map ?f xs))"
    then have "\<exists>y \<in> set (map ?f xs). isbn_col (?f a) = isbn_col y"
      by (simp only: set_map image_iff)
    then obtain y where ym: "y \<in> set (map ?f xs)" and ye: "isbn_col (?f a) = isbn_col y"
      by blast
    from ym have alt: "isbn_col y = isbn b \<or> (y \<in> set xs \<and> id_col y \<noteq> i)"
      by (rule isbn_col_assigned_rows)
    show False
    proof (cases "id_col a = i")
      case True
      with ye have yb: "isbn_col y = isbn b"
        by (simp add: assign_fields_def)
      from True Cons.prems(1) have others: "\<forall>r \<in> set xs. id_col r \<noteq> i"
        by (metis distinct.simps(2) imageI list.set_map list.simps(9))
      then have "map ?f xs = xs"
        by (simp add: map_idI)
      with ym have "y \<in> set xs"
        by simp
      with others Cons.prems(3) yb show False
        by simp
    next
      case False
      with ye have ya: "isbn_col y = isbn_col a"
        by simp
      from False Cons.prems(3) have "isbn_col a \<noteq> isbn b"
        by simp
      with alt ya have "y \<in> set xs"
        by auto
      with ya Cons.prems(2) show False
        by (metis distinct.simps(2) imageI list.set_map list.simps(9))
    qed
  qed
  from ih fresh show ?case
    by (simp del: map_map)
qed

lemma constraints_create_book:
  assumes "constraints_hold db"
  shows "constraints_hold (snd (create_book b db))"
proof (cases "fits_columns b \<and> isbn b \<notin> set (map isbn_col (books db))")
  case True
  from assms have "auto_increment db \<notin> set (map id_col (books db))"
    by (rule constraints_fresh_key)
  with True have "snd (create_book b db) =
      \<lparr>books = books db @
         [\<lparr>id_col = auto_increment db, title_col = title b, author_col = author b,
           published_year_col = published_year b, genre_col = genre b, isbn_col = isbn b\<rparr>],
       auto_increment = auto_increment db + 1\<rparr>"
    by (simp add: create_book_accepted)
  with assms True show ?thesis
    by (auto simp: constraints_hold_def)
next
  case False
  then have "create_book b db = (Inl DataError, db) \<or> create_book b db = (Inl IntegrityError, db)"
    by (intro create_book_refused) blast
  with assms show ?thesis
    by auto
qed

lemma update_book_state:
  "snd (update_book i b db) = db \<or>
   snd (update_book i b db) =
     db\<lparr>books := map (\<lambda>r. if id_col r = i then assign_fields b r else r) (books db)\<rparr> \<and>
     fits_columns b \<and> (\<forall>r \<in> set (books db). id_col r \<noteq> i \<longrightarrow> isbn_col r \<noteq> isbn b)"
proof (cases "query_first i db")
  case None
  then show ?thesis by (simp add: update_book_def)
next
  case (Some r)
  then have idr: "id_col r = i"
    using query_first_SomeD by blast
  show ?thesis
  proof (cases "fits_columns b \<and> (\<forall>r \<in> set (books db). id_col r \<noteq> i \<longrightarrow> isbn_col r \<noteq> isbn b)")
    case True
    with Some have "update_book i b db =
           (Inr \<lparr>title = title b, author = author b, published_year = published_year b,
                 genre = genre b, isbn = isbn b, id_out = i\<rparr>,
            db\<lparr>books := map (\<lambda>r. if id_col r = i then assign_fields b r else r) (books db)\<rparr>)"
      by (intro update_book_accepted) blast+
    with True show ?thesis by simp
  next
    case False
    then have "commit_update i b db = Inl DataError \<or> commit_update i b db = Inl IntegrityError"
      by (auto simp: commit_update_def)
    with Some idr show ?thesis
      by (auto simp: update_book_def)
  qed
qed

lemma constraints_update_book:
  assumes "constraints_hold db"
  shows "constraints_hold (snd (update_book i b db))"
proof -
  let ?db' = "db\<lparr>books := map (\<lambda>r. if id_col r = i then assign_fields b r else r) (books db)\<rparr>"
  from update_book_state [of i b db]
  consider "snd (update_book i b db) = db"
    | "snd (update_book i b db) = ?db'"
      "\<forall>r \<in> set (books db). id_col r \<noteq> i \<longrightarrow> isbn_col r \<noteq> isbn b"
    by blast
  then show ?thesis
  proof cases
    case 1
    with assms show ?thesis by simp
  next
    case 2
    have bk: "books ?db' = map (\<lambda>r. if id_col r = i then assign_fields b r else r) (books db)"
      by simp
    have ai: "auto_increment ?db' = auto_increment db"
      by simp
    from assms have d1: "distinct (map id_col (books db))"
      and d2: "distinct (map isbn_col (books db))"
      and lt: "\<forall>r \<in> set (books db). id_col r < auto_increment db"
      by (simp_all add: constraints_hold_def)
    have ids: "map id_col (books ?db') = map id_col (books db)"
      by (simp only: bk map_id_col_assign)
    from d1 d2 2(2) have i2: "distinct (map isbn_col (books ?db'))"
      unfolding bk by (rule distinct_isbn_assign)
    from lt have "\<forall>k \<in> set (map id_col (books db)). k < auto_increment db"
      by simp
    then have "\<forall>k \<in> set (map id_col (books ?db')). k < auto_increment ?db'"
      by (simp only: ids ai)
    then have "\<forall>r \<in> set (books ?db'). id_col r < auto_increment ?db'"
      by (simp only: set_map ball_simps)
    with d1 ids i2 have "constraints_hold ?db'"
      unfolding constraints_hold_def by (simp only:) 
    with 2(1) show ?thesis by simp
  qed
qed

lemma constraints_delete_book:
  assumes "constraints_hold db"
  shows "constraints_hold (snd (delete_book i db))"
proof (cases "query_first i db")
  case None
  with assms show ?thesis by (simp add: delete_book_def)
next
  case (Some r)
  with assms show ?thesis
    by (auto simp: delete_book_def commit_delete_def constraints_hold_def distinct_map_filter)
qed

lemma assigned_rows:
  assumes "x \<in> set (map (\<lambda>r. if id_col r = i then assign_fields b r else r) xs)"
    and "id_col x = i"
  shows "title_col x = title b \<and> author_col x = author b \<and>
     published_year_col x = published_year b \<and> genre_col x = genre b \<and> isbn_col x = isbn b"
proof -
  from assms(1) have "\<exists>x0 \<in> set xs. x = (if id_col x0 = i then assign_fields b x0 else x0)"
    by (simp only: set_map image_iff)
  then obtain x0 where x: "x = (if id_col x0 = i then assign_fields b x0 else x0)"
    by blast
  have "x = assign_fields b x0"
  proof (cases "id_col x0 = i")
    case True
    with x show ?thesis by simp
  next
    case False
    with x have "x = x0" by simp
    with assms(2) False show ?thesis by simp
  qed
  then show ?thesis
    by (simp add: assign_fields_def)
qed

section \<open>Decimal rendering of integers\<close>

text \<open>
  \<open>str_int\<close> writes the canonical decimal numeral of its argument: reading it back
  gives the number, there is no leading zero, and a minus sign stands exactly in front
  of the negative numbers.
\<close>

lemma below_ten:
  assumes "d < (10::nat)"
  obtains "d = 0" | "d = 1" | "d = 2" | "d = 3" | "d = 4" | "d = 5" | "d = 6" | "d = 7"
    | "d = 8" | "d = 9"
  using assms by atomize_elim arith

lemma digit_of_nth: "d < 10 \<Longrightarrow> digit_of (''0123456789'' ! d) = Some d"
  by (erule below_ten) (simp_all add: digit_of_def)

lemma digit_not_minus: "d < 10 \<Longrightarrow> ''0123456789'' ! d \<noteq> CHR ''-''"
  by (erule below_ten) simp_all

lemma digit_zero_iff: "d < 10 \<Longrightarrow> (''0123456789'' ! d = CHR ''0'') = (d = 0)"
  by (erule below_ten) simp_all

lemma decimal_acc_append:
  "decimal_acc a (xs @ ys) = Option.bind (decimal_acc a xs) (\<lambda>v. decimal_acc v ys)"
  by (induction xs arbitrary: a) (simp_all split: option.splits)

lemma decimal_acc_str_nat: "decimal_acc 0 (str_nat n) = Some n"
proof (induction n rule: str_nat.induct)
  case (1 n)
  show ?case
  proof (cases "n < 10")
    case True
    then show ?thesis
      by (simp add: str_nat.simps [of n] digit_of_nth)
  next
    case False
    then have ih: "decimal_acc 0 (str_nat (n div 10)) = Some (n div 10)"
      by (rule "1.IH")
    have "n mod 10 < 10" by simp
    then have "digit_of (''0123456789'' ! (n mod 10)) = Some (n mod 10)"
      by (rule digit_of_nth)
    with False ih show ?thesis
      by (simp add: str_nat.simps [of n] decimal_acc_append)
  qed
qed

lemma str_nat_shape:
  "str_nat n \<noteq> [] \<and> hd (str_nat n) \<noteq> CHR ''-'' \<and> (hd (str_nat n) = CHR ''0'' \<longrightarrow> n = 0)"
proof (induction n rule: str_nat.induct)
  case (1 n)
  show ?case
  proof (cases "n < 10")
    case True
    then show ?thesis
      by (simp add: str_nat.simps [of n] digit_not_minus digit_zero_iff)
  next
    case False
    then have ih: "str_nat (n div 10) \<noteq> [] \<and> hd (str_nat (n div 10)) \<noteq> CHR ''-'' \<and>
        (hd (str_nat (n div 10)) = CHR ''0'' \<longrightarrow> n div 10 = 0)"
      by (rule "1.IH")
    from False have "n div 10 \<noteq> 0" by simp
    with False ih show ?thesis
      by (simp add: str_nat.simps [of n])
  qed
qed

lemma int_of_str_str_int: "int_of_str (str_int i) = Some i"
proof (cases "i < 0")
  case True
  have "str_nat (nat (- i)) \<noteq> []"
    using str_nat_shape by blast
  with True show ?thesis
    by (simp add: str_int_def decimal_acc_str_nat)
next
  case False
  obtain c cs where s: "str_nat (nat i) = c # cs"
    using str_nat_shape [of "nat i"] by (cases "str_nat (nat i)") simp_all
  with str_nat_shape [of "nat i"] have c: "c \<noteq> CHR ''-''"
    by simp
  have "decimal_acc 0 (c # cs) = Some (nat i)"
    using decimal_acc_str_nat [of "nat i"] s by simp
  with False s c show ?thesis
    by (simp add: str_int_def)
qed

lemma str_int_canonical:
  "(hd (str_int i) = CHR ''0'' \<longrightarrow> i = 0) \<and>
   (hd (str_int i) = CHR ''-'' \<longrightarrow> i < 0 \<and> hd (tl (str_int i)) \<noteq> CHR ''0'')"
proof (cases "i < 0")
  case True
  then have "nat (- i) \<noteq> 0" by simp
  with str_nat_shape [of "nat (- i)"] have "hd (str_nat (nat (- i))) \<noteq> CHR ''0''"
    by blast
  with True show ?thesis
    by (simp add: str_int_def)
next
  case False
  with str_nat_shape [of "nat i"] show ?thesis
    by (auto simp: str_int_def)
qed

section \<open>When a write is accepted\<close>

text \<open>
  A handler returns an object only if the storage accepted the statement, that is, only
  if none of the refusals applied.
\<close>

lemma create_book_InrD:
  assumes "fst (create_book b db) = Inr out"
  shows "fits_columns b \<and> isbn b \<notin> set (map isbn_col (books db)) \<and>
         auto_increment db \<notin> set (map id_col (books db))"
proof (rule ccontr)
  assume "\<not> (fits_columns b \<and> isbn b \<notin> set (map isbn_col (books db)) \<and>
         auto_increment db \<notin> set (map id_col (books db)))"
  then have "\<not> fits_columns b \<or> isbn b \<in> set (map isbn_col (books db))
           \<or> auto_increment db \<in> set (map id_col (books db))"
    by blast
  then have "create_book b db = (Inl DataError, db) \<or> create_book b db = (Inl IntegrityError, db)"
    by (rule create_book_refused)
  with assms show False
    by auto
qed

lemma update_book_InrD:
  assumes "fst (update_book i b db) = Inr out"
  shows "(\<exists>r. query_first i db = Some r) \<and> fits_columns b \<and>
         (\<forall>r' \<in> set (books db). id_col r' \<noteq> i \<longrightarrow> isbn_col r' \<noteq> isbn b)"
proof (cases "query_first i db")
  case None
  with assms show ?thesis
    by (simp add: update_book_def)
next
  case (Some r)
  then have idr: "id_col r = i"
    using query_first_SomeD by blast
  show ?thesis
  proof (rule ccontr)
    assume "\<not> ((\<exists>r. query_first i db = Some r) \<and> fits_columns b \<and>
         (\<forall>r' \<in> set (books db). id_col r' \<noteq> i \<longrightarrow> isbn_col r' \<noteq> isbn b))"
    with Some have "\<not> fits_columns b \<or> (\<exists>r' \<in> set (books db). id_col r' \<noteq> i \<and> isbn_col r' = isbn b)"
      by blast
    then have "commit_update i b db = Inl DataError \<or> commit_update i b db = Inl IntegrityError"
      by (auto simp: commit_update_def)
    with Some idr have "fst (update_book i b db) = Inl DataError \<or> fst (update_book i b db) = Inl IntegrityError"
      by (auto simp: update_book_def)
    with assms show False
      by auto
  qed
qed

lemma fits_columns_blank:
  "fits_columns b \<Longrightarrow> fits_columns (b\<lparr>title := [], author := []\<rparr>)"
  by (simp add: fits_columns_def)

section \<open>Fetching one book\<close>

text \<open>
  Claim C2. For every id, \<^verbatim>\<open>GET /books/{book_id}\<close> answers 200 exactly when a record
  with that id is stored, and the body then carries the six fields of a stored record
  of that id, each with the stored value (of the one such record, when the primary key
  holds); it answers 404 with the body \<^verbatim>\<open>{"detail": "Book not found"}\<close> exactly when
  none is stored; there is no third outcome, and the stored state is not touched.
\<close>

theorem get_book_found_iff_stored:
  "((\<exists>r \<in> set (books db). id_col r = book_id) \<longleftrightarrow>
      (\<exists>r \<in> set (books db). id_col r = book_id \<and>
         get_book book_id db =
           Inr \<lparr>title = title_col r, author = author_col r,
                published_year = published_year_col r, genre = genre_col r,
                isbn = isbn_col r, id_out = book_id\<rparr> \<and>
         respond (fst (endpoint st it (GetBook book_id) db)) =
           OK (JObj [(''title'', JStr (title_col r)), (''author'', JStr (author_col r)),
                     (''published_year'', JInt (published_year_col r)),
                     (''genre'', JStr (genre_col r)), (''isbn'', JStr (isbn_col r)),
                     (''id'', JInt book_id)]))) \<and>
   (distinct (map id_col (books db)) \<longrightarrow>
      (\<forall>r \<in> set (books db). id_col r = book_id \<longrightarrow>
         get_book book_id db =
           Inr \<lparr>title = title_col r, author = author_col r,
                published_year = published_year_col r, genre = genre_col r,
                isbn = isbn_col r, id_out = book_id\<rparr>)) \<and>
   ((\<forall>r \<in> set (books db). id_col r \<noteq> book_id) \<longleftrightarrow>
      get_book book_id db = Inl (HTTPException 404 ''Book not found'')) \<and>
   ((\<forall>r \<in> set (books db). id_col r \<noteq> book_id) \<longleftrightarrow>
      respond (fst (endpoint st it (GetBook book_id) db)) =
        HTTPError 404 (JObj [(''detail'', JStr ''Book not found'')])) \<and>
   ((\<exists>r \<in> set (books db). id_col r = book_id) \<longleftrightarrow>
      status_code (respond (fst (endpoint st it (GetBook book_id) db))) = 200) \<and>
   ((\<forall>r \<in> set (books db). id_col r \<noteq> book_id) \<longleftrightarrow>
      status_code (respond (fst (endpoint st it (GetBook book_id) db))) = 404) \<and>
   snd (endpoint st it (GetBook book_id) db) = db"
proof (cases "query_first book_id db")
  case None
  then have absent: "\<forall>r \<in> set (books db). id_col r \<noteq> book_id"
    by (auto simp: query_first_None)
  from None have g: "get_book book_id db = Inl (HTTPException 404 ''Book not found'')"
    by (simp add: get_book_def not_found_def)
  then have e: "endpoint st it (GetBook book_id) db = (Inl (HTTPException 404 ''Book not found''), db)"
    by (simp add: endpoint_def)
  from absent g e show ?thesis
    by simp
next
  case (Some r)
  then have stored: "r \<in> set (books db)" "id_col r = book_id"
    using query_first_SomeD by blast+
  let ?out = "\<lparr>title = title_col r, author = author_col r,
                published_year = published_year_col r, genre = genre_col r,
                isbn = isbn_col r, id_out = book_id\<rparr>"
  let ?js = "JObj [(''title'', JStr (title_col r)), (''author'', JStr (author_col r)),
                     (''published_year'', JInt (published_year_col r)),
                     (''genre'', JStr (genre_col r)), (''isbn'', JStr (isbn_col r)),
                     (''id'', JInt book_id)]"
  from Some stored(2) have g: "get_book book_id db = Inr ?out"
    by (simp add: get_book_def from_orm_def)
  then have e: "endpoint st it (GetBook book_id) db = (Inr ?js, db)"
    by (simp add: endpoint_def to_json_def)
  have present: "\<exists>r \<in> set (books db). id_col r = book_id"
    using stored by blast
  have first: "\<exists>r \<in> set (books db). id_col r = book_id \<and>
         get_book book_id db =
           Inr \<lparr>title = title_col r, author = author_col r,
                published_year = published_year_col r, genre = genre_col r,
                isbn = isbn_col r, id_out = book_id\<rparr> \<and>
         respond (fst (endpoint st it (GetBook book_id) db)) =
           OK (JObj [(''title'', JStr (title_col r)), (''author'', JStr (author_col r)),
                     (''published_year'', JInt (published_year_col r)),
                     (''genre'', JStr (genre_col r)), (''isbn'', JStr (isbn_col r)),
                     (''id'', JInt book_id)])"
    using stored g e by (intro bexI [of _ r]) simp_all
  have only: "distinct (map id_col (books db)) \<longrightarrow>
      (\<forall>r \<in> set (books db). id_col r = book_id \<longrightarrow>
         get_book book_id db =
           Inr \<lparr>title = title_col r, author = author_col r,
                published_year = published_year_col r, genre = genre_col r,
                isbn = isbn_col r, id_out = book_id\<rparr>)"
  proof (intro impI ballI)
    fix r'
    assume d: "distinct (map id_col (books db))" and m: "r' \<in> set (books db)"
      and i: "id_col r' = book_id"
    from d m have "query_first (id_col r') db = Some r'"
      by (rule query_first_distinct)
    with i Some have "r' = r"
      by simp
    with g show "get_book book_id db =
           Inr \<lparr>title = title_col r', author = author_col r',
                published_year = published_year_col r', genre = genre_col r',
                isbn = isbn_col r', id_out = book_id\<rparr>"
      by simp
  qed
  have n1: "\<not> (\<forall>r \<in> set (books db). id_col r \<noteq> book_id)"
    using present by blast
  have n2: "get_book book_id db \<noteq> Inl (HTTPException 404 ''Book not found'')"
    using g by simp
  have r1: "respond (fst (endpoint st it (GetBook book_id) db)) = OK ?js"
    using e by simp
  then have n3: "respond (fst (endpoint st it (GetBook book_id) db)) \<noteq>
        HTTPError 404 (JObj [(''detail'', JStr ''Book not found'')])"
    by simp
  from r1 have s1: "status_code (respond (fst (endpoint st it (GetBook book_id) db))) = 200"
    by simp
  then have s2: "status_code (respond (fst (endpoint st it (GetBook book_id) db))) \<noteq> 404"
    by simp
  have u: "snd (endpoint st it (GetBook book_id) db) = db"
    using e by simp
  from present first only n1 n2 n3 s1 s2 u show ?thesis
    by (simp only: simp_thms)
qed

text \<open>
  The one-book table: id 1 is answered with the six stored values, id 2 with the 404.
\<close>

theorem get_book_found_iff_stored_witness:
  "(\<exists>r \<in> set (books one_book_db). id_col r = 1) \<and>
   distinct (map id_col (books one_book_db)) \<and>
   get_book 1 one_book_db =
     Inr \<lparr>title = ''A'', author = ''B'', published_year = 2000, genre = ''Fiction'',
          isbn = ''1111111111111'', id_out = 1\<rparr> \<and>
   \<not> (\<exists>r \<in> set (books one_book_db). id_col r = 2) \<and>
   get_book 2 one_book_db = Inl (HTTPException 404 ''Book not found'') \<and>
   status_code (respond (fst (endpoint strict_str lax_int (GetBook 2) one_book_db))) = 404"
proof -
  have h1: "\<exists>r \<in> set (books one_book_db). id_col r = 1"
    by (simp add: one_book_db_def sample_row_def)
  have h2: "distinct (map id_col (books one_book_db))"
    by (simp add: one_book_db_def)
  have h3: "sample_row \<in> set (books one_book_db)" "id_col sample_row = 1"
    by (simp_all add: one_book_db_def sample_row_def)
  have h4: "\<forall>r \<in> set (books one_book_db). id_col r \<noteq> 2"
    by (simp add: one_book_db_def sample_row_def)
  note t1 = get_book_found_iff_stored [of one_book_db 1 strict_str lax_int]
  note t2 = get_book_found_iff_stored [of one_book_db 2 strict_str lax_int]
  from t1 h2 h3 have "get_book 1 one_book_db =
     Inr \<lparr>title = title_col sample_row, author = author_col sample_row,
          published_year = published_year_col sample_row, genre = genre_col sample_row,
          isbn = isbn_col sample_row, id_out = 1\<rparr>"
    by blast
  then have g1: "get_book 1 one_book_db =
     Inr \<lparr>title = ''A'', author = ''B'', published_year = 2000, genre = ''Fiction'',
          isbn = ''1111111111111'', id_out = 1\<rparr>"
    by (simp add: sample_row_def)
  from t2 h4 have g2: "get_book 2 one_book_db = Inl (HTTPException 404 ''Book not found'')"
    and s2: "status_code (respond (fst (endpoint strict_str lax_int (GetBook 2) one_book_db))) = 404"
    by blast+
  from h4 have h4': "\<not> (\<exists>r \<in> set (books one_book_db). id_col r = 2)"
    by blast
  from h1 h2 g1 h4' g2 s2 show ?thesis
    by (intro conjI)
qed

section \<open>Creating a book\<close>




section \<open>Updating a book\<close>

text \<open>
  Claim C3. For every existing id and every input whose texts fit the declared column
  widths, whose \<^verbatim>\<open>published_year\<close> lies in the range of the integer column and whose
  \<^verbatim>\<open>isbn\<close> no other stored book has, \<^verbatim>\<open>PUT /books/{book_id}\<close> overwrites all five fields
  of the record of that id together, returns 200 with the updated output shape, and a
  following GET of that id returns exactly the new fields; when no record has the id,
  PUT returns 404 and leaves the table as it was.
\<close>

theorem update_replaces_all_fields:
  "((\<exists>r \<in> set (books db). id_col r = book_id) \<and> fits_columns b \<and>
    (\<forall>r' \<in> set (books db). id_col r' \<noteq> book_id \<longrightarrow> isbn_col r' \<noteq> isbn b) \<longrightarrow>
      (\<exists>db'. update_book book_id b db =
           (Inr \<lparr>title = title b, author = author b, published_year = published_year b,
                 genre = genre b, isbn = isbn b, id_out = book_id\<rparr>, db') \<and>
         respond (map_sum (\<lambda>e. e) to_json (fst (update_book book_id b db))) =
           OK (JObj [(''title'', JStr (title b)), (''author'', JStr (author b)),
                     (''published_year'', JInt (published_year b)),
                     (''genre'', JStr (genre b)), (''isbn'', JStr (isbn b)),
                     (''id'', JInt book_id)]) \<and>
         status_code (respond (map_sum (\<lambda>e. e) to_json (fst (update_book book_id b db)))) = 200 \<and>
         (\<exists>r \<in> set (books db'). id_col r = book_id) \<and>
         (\<forall>r \<in> set (books db'). id_col r = book_id \<longrightarrow>
            title_col r = title b \<and> author_col r = author b \<and>
            published_year_col r = published_year b \<and> genre_col r = genre b \<and>
            isbn_col r = isbn b) \<and>
         get_book book_id db' =
           Inr \<lparr>title = title b, author = author b, published_year = published_year b,
                genre = genre b, isbn = isbn b, id_out = book_id\<rparr>)) \<and>
   ((\<forall>r \<in> set (books db). id_col r \<noteq> book_id) \<longrightarrow>
      update_book book_id b db = (Inl (HTTPException 404 ''Book not found''), db) \<and>
      respond (map_sum (\<lambda>e. e) to_json (fst (update_book book_id b db))) =
        HTTPError 404 (JObj [(''detail'', JStr ''Book not found'')]) \<and>
      status_code (respond (map_sum (\<lambda>e. e) to_json (fst (update_book book_id b db)))) = 404)"
proof (intro conjI impI)
  assume a: "(\<exists>r \<in> set (books db). id_col r = book_id) \<and> fits_columns b \<and>
    (\<forall>r' \<in> set (books db). id_col r' \<noteq> book_id \<longrightarrow> isbn_col r' \<noteq> isbn b)"
  let ?db' = "db\<lparr>books := map (\<lambda>r. if id_col r = book_id then assign_fields b r else r) (books db)\<rparr>"
  let ?out = "\<lparr>title = title b, author = author b, published_year = published_year b,
               genre = genre b, isbn = isbn b, id_out = book_id\<rparr>"
  from a have "query_first book_id db \<noteq> None"
    by (auto simp: query_first_None)
  then obtain r where q: "query_first book_id db = Some r"
    by blast
  from a have fit: "fits_columns b"
    and uniq: "\<forall>r' \<in> set (books db). id_col r' \<noteq> book_id \<longrightarrow> isbn_col r' \<noteq> isbn b"
    by blast+
  from q fit uniq have u: "update_book book_id b db = (Inr ?out, ?db')"
    by (rule update_book_accepted)
  from q have g: "get_book book_id ?db' = Inr ?out"
    by (rule get_book_after_update)
  have bk: "books ?db' = map (\<lambda>r. if id_col r = book_id then assign_fields b r else r) (books db)"
    by simp
  have f: "\<forall>r \<in> set (books ?db'). id_col r = book_id \<longrightarrow>
            title_col r = title b \<and> author_col r = author b \<and>
            published_year_col r = published_year b \<and> genre_col r = genre b \<and>
            isbn_col r = isbn b"
  proof (intro ballI impI)
    fix x
    assume xin: "x \<in> set (books ?db')" and i: "id_col x = book_id"
    from xin have "x \<in> set (map (\<lambda>r. if id_col r = book_id then assign_fields b r else r) (books db))"
      by (simp only: bk)
    then show "title_col x = title b \<and> author_col x = author b \<and>
            published_year_col x = published_year b \<and> genre_col x = genre b \<and>
            isbn_col x = isbn b"
      using i by (rule assigned_rows)
  qed
  have "query_first book_id ?db' \<noteq> None"
    using g by (auto simp: get_book_def split: option.splits)
  then have "book_id \<in> set (map id_col (books ?db'))"
    by (simp only: query_first_None not_not)
  then have p: "\<exists>r \<in> set (books ?db'). id_col r = book_id"
    by (simp only: set_map image_iff) blast
  from u have resp: "respond (map_sum (\<lambda>e. e) to_json (fst (update_book book_id b db))) =
           OK (JObj [(''title'', JStr (title b)), (''author'', JStr (author b)),
                     (''published_year'', JInt (published_year b)),
                     (''genre'', JStr (genre b)), (''isbn'', JStr (isbn b)),
                     (''id'', JInt book_id)])"
    by (simp add: to_json_def)
  then have s: "status_code (respond (map_sum (\<lambda>e. e) to_json (fst (update_book book_id b db)))) = 200"
    by simp
  from u resp s p f g have "update_book book_id b db = (Inr ?out, ?db') \<and>
         respond (map_sum (\<lambda>e. e) to_json (fst (update_book book_id b db))) =
           OK (JObj [(''title'', JStr (title b)), (''author'', JStr (author b)),
                     (''published_year'', JInt (published_year b)),
                     (''genre'', JStr (genre b)), (''isbn'', JStr (isbn b)),
                     (''id'', JInt book_id)]) \<and>
         status_code (respond (map_sum (\<lambda>e. e) to_json (fst (update_book book_id b db)))) = 200 \<and>
         (\<exists>r \<in> set (books ?db'). id_col r = book_id) \<and>
         (\<forall>r \<in> set (books ?db'). id_col r = book_id \<longrightarrow>
            title_col r = title b \<and> author_col r = author b \<and>
            published_year_col r = published_year b \<and> genre_col r = genre b \<and>
            isbn_col r = isbn b) \<and>
         get_book book_id ?db' = Inr ?out"
    by (intro conjI)
  then show "\<exists>db'. update_book book_id b db = (Inr ?out, db') \<and>
         respond (map_sum (\<lambda>e. e) to_json (fst (update_book book_id b db))) =
           OK (JObj [(''title'', JStr (title b)), (''author'', JStr (author b)),
                     (''published_year'', JInt (published_year b)),
                     (''genre'', JStr (genre b)), (''isbn'', JStr (isbn b)),
                     (''id'', JInt book_id)]) \<and>
         status_code (respond (map_sum (\<lambda>e. e) to_json (fst (update_book book_id b db)))) = 200 \<and>
         (\<exists>r \<in> set (books db'). id_col r = book_id) \<and>
         (\<forall>r \<in> set (books db'). id_col r = book_id \<longrightarrow>
            title_col r = title b \<and> author_col r = author b \<and>
            published_year_col r = published_year b \<and> genre_col r = genre b \<and>
            isbn_col r = isbn b) \<and>
         get_book book_id db' = Inr ?out"
    by (intro exI)
next
  assume "\<forall>r \<in> set (books db). id_col r \<noteq> book_id"
  then have "query_first book_id db = None"
    by (auto simp: query_first_None)
  then show u: "update_book book_id b db = (Inl (HTTPException 404 ''Book not found''), db)"
    by (simp add: update_book_absent not_found_def)
  then show r: "respond (map_sum (\<lambda>e. e) to_json (fst (update_book book_id b db))) =
        HTTPError 404 (JObj [(''detail'', JStr ''Book not found'')])"
    by simp
  then show "status_code (respond (map_sum (\<lambda>e. e) to_json (fst (update_book book_id b db)))) = 404"
    by simp
qed

text \<open>
  The replacement run on book 1 of the two-book table, where book 2 holds another
  \<^verbatim>\<open>isbn\<close>, and the 404 for an id that is not stored.
\<close>

theorem update_replaces_all_fields_witness:
  "(\<exists>r \<in> set (books two_books_db). id_col r = 1) \<and> fits_columns sample_book3 \<and>
   (\<exists>r' \<in> set (books two_books_db). id_col r' \<noteq> 1) \<and>
   \<not> (\<exists>r' \<in> set (books two_books_db). id_col r' \<noteq> 1 \<and> isbn_col r' = isbn sample_book3) \<and>
   (\<exists>db'. update_book 1 sample_book3 two_books_db =
       (Inr \<lparr>title = ''A3'', author = ''B3'', published_year = 1999, genre = ''Poetry'',
             isbn = ''3333333333333'', id_out = 1\<rparr>, db') \<and>
     get_book 1 db' =
       Inr \<lparr>title = ''A3'', author = ''B3'', published_year = 1999, genre = ''Poetry'',
            isbn = ''3333333333333'', id_out = 1\<rparr>) \<and>
   \<not> (\<exists>r \<in> set (books two_books_db). id_col r = 7) \<and>
   update_book 7 sample_book3 two_books_db =
     (Inl (HTTPException 404 ''Book not found''), two_books_db)"
proof -
  have h1: "\<exists>r \<in> set (books two_books_db). id_col r = 1"
    by (simp add: two_books_db_def sample_row_def)
  have h2: "fits_columns sample_book3"
    by (simp add: fits_columns_def sample_book3_def)
  have other: "\<exists>r' \<in> set (books two_books_db). id_col r' \<noteq> 1"
    by (simp add: two_books_db_def sample_row2_def)
  have h3: "\<forall>r' \<in> set (books two_books_db). id_col r' \<noteq> 1 \<longrightarrow> isbn_col r' \<noteq> isbn sample_book3"
    by (simp add: two_books_db_def sample_row_def sample_row2_def sample_book3_def)
  have h4: "\<forall>r \<in> set (books two_books_db). id_col r \<noteq> 7"
    by (simp add: two_books_db_def sample_row_def sample_row2_def)
  from update_replaces_all_fields [of two_books_db 1 sample_book3] h1 h2 h3
  obtain db' where u: "update_book 1 sample_book3 two_books_db =
           (Inr \<lparr>title = title sample_book3, author = author sample_book3,
                 published_year = published_year sample_book3, genre = genre sample_book3,
                 isbn = isbn sample_book3, id_out = 1\<rparr>, db')"
    and g: "get_book 1 db' =
           Inr \<lparr>title = title sample_book3, author = author sample_book3,
                published_year = published_year sample_book3, genre = genre sample_book3,
                isbn = isbn sample_book3, id_out = 1\<rparr>"
    by blast
  from u have u': "update_book 1 sample_book3 two_books_db =
       (Inr \<lparr>title = ''A3'', author = ''B3'', published_year = 1999, genre = ''Poetry'',
             isbn = ''3333333333333'', id_out = 1\<rparr>, db')"
    by (simp add: sample_book3_def)
  from g have g': "get_book 1 db' =
       Inr \<lparr>title = ''A3'', author = ''B3'', published_year = 1999, genre = ''Poetry'',
            isbn = ''3333333333333'', id_out = 1\<rparr>"
    by (simp add: sample_book3_def)
  from update_replaces_all_fields [of two_books_db 7 sample_book3] h4
  have n: "update_book 7 sample_book3 two_books_db =
      (Inl (HTTPException 404 ''Book not found''), two_books_db)"
    by blast
  from u' g' have ex: "\<exists>db'. update_book 1 sample_book3 two_books_db =
       (Inr \<lparr>title = ''A3'', author = ''B3'', published_year = 1999, genre = ''Poetry'',
             isbn = ''3333333333333'', id_out = 1\<rparr>, db') \<and>
     get_book 1 db' =
       Inr \<lparr>title = ''A3'', author = ''B3'', published_year = 1999, genre = ''Poetry'',
            isbn = ''3333333333333'', id_out = 1\<rparr>"
    by (intro exI conjI)
  from h3 have h3': "\<not> (\<exists>r' \<in> set (books two_books_db). id_col r' \<noteq> 1 \<and> isbn_col r' = isbn sample_book3)"
    by blast
  from h4 have h4': "\<not> (\<exists>r \<in> set (books two_books_db). id_col r = 7)"
    by blast
  from h1 h2 other h3' ex h4' n show ?thesis
    by (intro conjI)
qed

text \<open>
  Each condition on the input is needed, so not every valid input on an existing id
  is answered with 200. On the two-book table an update of book 1 is refused, the
  table left as it was and the request ended in a server error, when it carries the
  \<^verbatim>\<open>isbn\<close> of book 2, an \<^verbatim>\<open>isbn\<close> of fourteen characters, or a year one beyond the
  integer column.
\<close>

theorem update_book_full_replacement_counterexample:
  "(\<exists>r \<in> set (books two_books_db). id_col r = 1) \<and>
   update_book 1 (sample_book\<lparr>isbn := ''2222222222222''\<rparr>) two_books_db
     = (Inl IntegrityError, two_books_db) \<and>
   status_code (respond (map_sum (\<lambda>e. e) to_json
     (fst (update_book 1 (sample_book\<lparr>isbn := ''2222222222222''\<rparr>) two_books_db)))) = 500 \<and>
   update_book 1 (sample_book\<lparr>isbn := ''97811111111111''\<rparr>) two_books_db
     = (Inl DataError, two_books_db) \<and>
   update_book 1 (sample_book\<lparr>published_year := 2147483648\<rparr>) two_books_db
     = (Inl DataError, two_books_db)"
  by (simp add: update_book_def query_first_def commit_update_def fits_columns_def
      two_books_db_def sample_row_def sample_row2_def sample_book_def)

section \<open>Deleting a book\<close>

text \<open>
  Claim C4. For every existing id, \<^verbatim>\<open>DELETE /books/{book_id}\<close> removes the record of
  that id and returns 200 with the message \<^verbatim>\<open>Book with ID {id} deleted\<close>, in which the
  id stands as its canonical decimal numeral (reading it back gives the id, no leading
  zero, a minus sign exactly for a negative id); a following GET of that id returns
  not-found, and a second DELETE of the same id returns not-found as well and changes
  nothing.
\<close>

theorem delete_then_not_found:
  assumes "\<exists>r \<in> set (books db). id_col r = book_id"
  shows "\<exists>db'. delete_book book_id db =
           (Inr (JObj [(''message'', JStr (''Book with ID '' @ str_int book_id @ '' deleted''))]), db') \<and>
         int_of_str (str_int book_id) = Some book_id \<and>
         (hd (str_int book_id) = CHR ''0'' \<longrightarrow> book_id = 0) \<and>
         (hd (str_int book_id) = CHR ''-'' \<longrightarrow>
            book_id < 0 \<and> hd (tl (str_int book_id)) \<noteq> CHR ''0'') \<and>
         respond (fst (delete_book book_id db)) =
           OK (JObj [(''message'', JStr (''Book with ID '' @ str_int book_id @ '' deleted''))]) \<and>
         status_code (respond (fst (delete_book book_id db))) = 200 \<and>
         books db' = filter (\<lambda>r. id_col r \<noteq> book_id) (books db) \<and>
         (\<forall>r \<in> set (books db'). id_col r \<noteq> book_id) \<and>
         get_book book_id db' = Inl (HTTPException 404 ''Book not found'') \<and>
         delete_book book_id db' = (Inl (HTTPException 404 ''Book not found''), db') \<and>
         respond (fst (delete_book book_id db')) =
           HTTPError 404 (JObj [(''detail'', JStr ''Book not found'')])"
proof -
  from assms have "query_first book_id db \<noteq> None"
    by (auto simp: query_first_None)
  then obtain r where q: "query_first book_id db = Some r"
    by blast
  then have idr: "id_col r = book_id"
    using query_first_SomeD by blast
  let ?db' = "commit_delete book_id db"
  let ?msg = "JObj [(''message'', JStr (''Book with ID '' @ str_int book_id @ '' deleted''))]"
  from q idr have d: "delete_book book_id db = (Inr ?msg, ?db')"
    by (simp add: delete_book_def deleted_message_def)
  have reads: "int_of_str (str_int book_id) = Some book_id"
    by (rule int_of_str_str_int)
  have canon: "(hd (str_int book_id) = CHR ''0'' \<longrightarrow> book_id = 0) \<and>
         (hd (str_int book_id) = CHR ''-'' \<longrightarrow>
            book_id < 0 \<and> hd (tl (str_int book_id)) \<noteq> CHR ''0'')"
    by (rule str_int_canonical)
  from d have resp: "respond (fst (delete_book book_id db)) = OK ?msg"
    by simp
  then have s: "status_code (respond (fst (delete_book book_id db))) = 200"
    by simp
  have gone: "query_first book_id ?db' = None"
    by (rule query_first_after_delete)
  then have absent: "\<forall>r \<in> set (books ?db'). id_col r \<noteq> book_id"
    by (auto simp: query_first_None)
  from gone have g: "get_book book_id ?db' = Inl (HTTPException 404 ''Book not found'')"
    by (simp add: get_book_def not_found_def)
  from gone have again: "delete_book book_id ?db' = (Inl (HTTPException 404 ''Book not found''), ?db')"
    by (simp add: delete_book_absent not_found_def)
  then have resp2: "respond (fst (delete_book book_id ?db')) =
           HTTPError 404 (JObj [(''detail'', JStr ''Book not found'')])"
    by simp
  have rows: "books ?db' = filter (\<lambda>r. id_col r \<noteq> book_id) (books db)"
    by (simp add: commit_delete_def)
  from d reads canon resp s rows absent g again resp2
  have "delete_book book_id db = (Inr ?msg, ?db') \<and>
         int_of_str (str_int book_id) = Some book_id \<and>
         (hd (str_int book_id) = CHR ''0'' \<longrightarrow> book_id = 0) \<and>
         (hd (str_int book_id) = CHR ''-'' \<longrightarrow>
            book_id < 0 \<and> hd (tl (str_int book_id)) \<noteq> CHR ''0'') \<and>
         respond (fst (delete_book book_id db)) = OK ?msg \<and>
         status_code (respond (fst (delete_book book_id db))) = 200 \<and>
         books ?db' = filter (\<lambda>r. id_col r \<noteq> book_id) (books db) \<and>
         (\<forall>r \<in> set (books ?db'). id_col r \<noteq> book_id) \<and>
         get_book book_id ?db' = Inl (HTTPException 404 ''Book not found'') \<and>
         delete_book book_id ?db' = (Inl (HTTPException 404 ''Book not found''), ?db') \<and>
         respond (fst (delete_book book_id ?db')) =
           HTTPError 404 (JObj [(''detail'', JStr ''Book not found'')])"
    by blast
  then show ?thesis
    by (intro exI)
qed

text \<open>Deleting book 2 of the two-book table, with the message rendered.\<close>

theorem delete_then_not_found_witness:
  "(\<exists>r \<in> set (books two_books_db). id_col r = 2) \<and>
   (\<exists>db'. delete_book 2 two_books_db =
       (Inr (JObj [(''message'', JStr ''Book with ID 2 deleted'')]), db') \<and>
     books db' = [sample_row] \<and>
     get_book 2 db' = Inl (HTTPException 404 ''Book not found'') \<and>
     delete_book 2 db' = (Inl (HTTPException 404 ''Book not found''), db'))"
proof -
  have h: "\<exists>r \<in> set (books two_books_db). id_col r = 2"
    by (simp add: two_books_db_def sample_row2_def)
  have two: "str_int 2 = ''2''"
    by (simp add: str_int_def str_nat.simps)
  from delete_then_not_found [OF h]
  obtain db' where d: "delete_book 2 two_books_db =
           (Inr (JObj [(''message'', JStr (''Book with ID '' @ str_int 2 @ '' deleted''))]), db')"
    and rows: "books db' = filter (\<lambda>r. id_col r \<noteq> 2) (books two_books_db)"
    and g: "get_book 2 db' = Inl (HTTPException 404 ''Book not found'')"
    and again: "delete_book 2 db' = (Inl (HTTPException 404 ''Book not found''), db')"
    by blast
  from d have d': "delete_book 2 two_books_db =
       (Inr (JObj [(''message'', JStr ''Book with ID 2 deleted'')]), db')"
    by (simp add: two)
  from rows have rows': "books db' = [sample_row]"
    by (simp add: two_books_db_def sample_row_def sample_row2_def)
  from d' rows' g again have "\<exists>db'. delete_book 2 two_books_db =
       (Inr (JObj [(''message'', JStr ''Book with ID 2 deleted'')]), db') \<and>
     books db' = [sample_row] \<and>
     get_book 2 db' = Inl (HTTPException 404 ''Book not found'') \<and>
     delete_book 2 db' = (Inl (HTTPException 404 ''Book not found''), db')"
    by (intro exI conjI)
  with h show ?thesis
    by (intro conjI)
qed

text \<open>The rendering of some ids of more than one digit, and of a negative one.\<close>

lemma str_int_samples:
  "str_int 0 = ''0'' \<and> str_int 10 = ''10'' \<and> str_int 2147483648 = ''2147483648'' \<and>
   str_int (- 7) = ''-7'' \<and> str_int (- 120) = ''-120''"
  by (simp add: str_int_def str_nat.simps)

section \<open>Uniqueness of the isbn\<close>

text \<open>
  Claim C5. The \<^verbatim>\<open>isbn\<close> values of the stored books are pairwise different, and every
  create, update and delete keeps them so. In every state in which a book with some
  \<^verbatim>\<open>isbn\<close> is stored, inserting a second book with the same \<^verbatim>\<open>isbn\<close> fails: the storage
  raises, the request ends in a server error, no row is written, and the first book is
  still returned by GET with all its fields as they were.
\<close>

theorem duplicate_isbn_insert_refused:
  assumes "constraints_hold db"
    and "r \<in> set (books db)"
    and "isbn b = isbn_col r"
  shows "(fst (create_book b db) = Inl IntegrityError \<or> fst (create_book b db) = Inl DataError) \<and>
         (fits_columns b \<longrightarrow> fst (create_book b db) = Inl IntegrityError) \<and>
         respond (map_sum (\<lambda>e. e) to_json (fst (create_book b db))) = InternalServerError \<and>
         status_code (respond (map_sum (\<lambda>e. e) to_json (fst (create_book b db)))) = 500 \<and>
         books (snd (create_book b db)) = books db \<and>
         get_book (id_col r) (snd (create_book b db)) =
           Inr \<lparr>title = title_col r, author = author_col r,
                published_year = published_year_col r, genre = genre_col r,
                isbn = isbn_col r, id_out = id_col r\<rparr> \<and>
         distinct (map isbn_col (books db)) \<and>
         distinct (map isbn_col (books (snd (create_book b' db)))) \<and>
         distinct (map isbn_col (books (snd (update_book i b' db)))) \<and>
         distinct (map isbn_col (books (snd (delete_book i db)))) \<and>
         constraints_hold (snd (create_book b' db)) \<and>
         constraints_hold (snd (update_book i b' db)) \<and>
         constraints_hold (snd (delete_book i db))"
proof -
  from assms(2,3) have dup: "isbn b \<in> set (map isbn_col (books db))"
    by simp
  then have refused: "create_book b db = (Inl DataError, db) \<or> create_book b db = (Inl IntegrityError, db)"
    by (intro create_book_refused) blast
  then have either: "fst (create_book b db) = Inl IntegrityError \<or> fst (create_book b db) = Inl DataError"
    by auto
  from dup have integrity: "fits_columns b \<longrightarrow> fst (create_book b db) = Inl IntegrityError"
    by (simp add: create_book_def commit_add_def)
  from refused have resp: "respond (map_sum (\<lambda>e. e) to_json (fst (create_book b db))) = InternalServerError"
    by auto
  then have st: "status_code (respond (map_sum (\<lambda>e. e) to_json (fst (create_book b db)))) = 500"
    by simp
  from refused have same: "snd (create_book b db) = db"
    by auto
  then have rows: "books (snd (create_book b db)) = books db"
    by simp
  from assms(1) have "distinct (map id_col (books db))"
    by (simp add: constraints_hold_def)
  with assms(2) have "query_first (id_col r) db = Some r"
    by (intro query_first_distinct)
  then have "get_book (id_col r) db =
           Inr \<lparr>title = title_col r, author = author_col r,
                published_year = published_year_col r, genre = genre_col r,
                isbn = isbn_col r, id_out = id_col r\<rparr>"
    by (simp add: get_book_def from_orm_def)
  with same have g: "get_book (id_col r) (snd (create_book b db)) =
           Inr \<lparr>title = title_col r, author = author_col r,
                published_year = published_year_col r, genre = genre_col r,
                isbn = isbn_col r, id_out = id_col r\<rparr>"
    by simp
  from assms(1) have c1: "constraints_hold (snd (create_book b' db))"
    by (rule constraints_create_book)
  from assms(1) have c2: "constraints_hold (snd (update_book i b' db))"
    by (rule constraints_update_book)
  from assms(1) have c3: "constraints_hold (snd (delete_book i db))"
    by (rule constraints_delete_book)
  from assms(1) have d0: "distinct (map isbn_col (books db))"
    by (simp add: constraints_hold_def)
  from c1 have d1: "distinct (map isbn_col (books (snd (create_book b' db))))"
    by (simp add: constraints_hold_def)
  from c2 have d2: "distinct (map isbn_col (books (snd (update_book i b' db))))"
    by (simp add: constraints_hold_def)
  from c3 have d3: "distinct (map isbn_col (books (snd (delete_book i db))))"
    by (simp add: constraints_hold_def)
  from either integrity resp st rows g d0 d1 d2 d3 c1 c2 c3 show ?thesis
    by (intro conjI)
qed

text \<open>
  The specification's example: the sample book posted a second time against the table
  that holds it.
\<close>

theorem duplicate_isbn_insert_refused_witness:
  "constraints_hold one_book_db \<and> sample_row \<in> set (books one_book_db) \<and>
   isbn sample_book = isbn_col sample_row \<and>
   fst (create_book sample_book one_book_db) = Inl IntegrityError \<and>
   books (snd (create_book sample_book one_book_db)) = [sample_row] \<and>
   get_book 1 (snd (create_book sample_book one_book_db)) =
     Inr \<lparr>title = ''A'', author = ''B'', published_year = 2000, genre = ''Fiction'',
          isbn = ''1111111111111'', id_out = 1\<rparr>"
proof -
  have h1: "constraints_hold one_book_db"
    by (simp add: constraints_hold_def one_book_db_def sample_row_def)
  have h2: "sample_row \<in> set (books one_book_db)"
    by (simp add: one_book_db_def)
  have h3: "isbn sample_book = isbn_col sample_row"
    by (simp add: sample_book_def sample_row_def)
  have fit: "fits_columns sample_book"
    by (simp add: fits_columns_def sample_book_def)
  note t = duplicate_isbn_insert_refused [OF h1 h2 h3, of sample_book 1]
  from t fit have c: "fst (create_book sample_book one_book_db) = Inl IntegrityError"
    by blast
  from t have "books (snd (create_book sample_book one_book_db)) = books one_book_db"
    by blast
  then have rows: "books (snd (create_book sample_book one_book_db)) = [sample_row]"
    by (simp add: one_book_db_def)
  from t have "get_book (id_col sample_row) (snd (create_book sample_book one_book_db)) =
           Inr \<lparr>title = title_col sample_row, author = author_col sample_row,
                published_year = published_year_col sample_row, genre = genre_col sample_row,
                isbn = isbn_col sample_row, id_out = id_col sample_row\<rparr>"
    by blast
  then have g: "get_book 1 (snd (create_book sample_book one_book_db)) =
     Inr \<lparr>title = ''A'', author = ''B'', published_year = 2000, genre = ''Fiction'',
          isbn = ''1111111111111'', id_out = 1\<rparr>"
    by (simp add: sample_row_def)
  from h1 h2 h3 c rows g show ?thesis
    by (intro conjI)
qed

section \<open>Title and author\<close>

text \<open>
  Claim C6. In every stored book record the title and the author are the texts given
  in the create or update request that wrote the record, and they may be empty: no
  create or update checks that they are non-empty, so every create or update that is
  accepted is accepted as well with an empty title and an empty author, and stores
  them empty.
\<close>

theorem title_author_stored_as_given:
  "(fst (create_book b db) = Inr out \<longrightarrow>
      (\<exists>r \<in> set (books (snd (create_book b db))).
         id_col r = id_out out \<and> title_col r = title b \<and> author_col r = author b)) \<and>
   (fst (update_book i b db) = Inr out \<longrightarrow>
      (\<exists>r \<in> set (books (snd (update_book i b db))). id_col r = i) \<and>
      (\<forall>r \<in> set (books (snd (update_book i b db))).
         id_col r = i \<longrightarrow> title_col r = title b \<and> author_col r = author b)) \<and>
   (fst (create_book b db) = Inr out \<longrightarrow>
      (\<exists>r \<in> set (books (snd (create_book (b\<lparr>title := [], author := []\<rparr>) db))).
         id_col r = id_out out \<and> title_col r = [] \<and> author_col r = []) \<and>
      fst (create_book (b\<lparr>title := [], author := []\<rparr>) db) =
        Inr (out\<lparr>title := [], author := []\<rparr>)) \<and>
   (fst (update_book i b db) = Inr out \<longrightarrow>
      (\<forall>r \<in> set (books (snd (update_book i (b\<lparr>title := [], author := []\<rparr>) db))).
         id_col r = i \<longrightarrow> title_col r = [] \<and> author_col r = []) \<and>
      fst (update_book i (b\<lparr>title := [], author := []\<rparr>) db) =
        Inr (out\<lparr>title := [], author := []\<rparr>))"
proof (intro conjI impI)
  assume a: "fst (create_book b db) = Inr out"
  let ?row = "\<lparr>id_col = auto_increment db, title_col = title b, author_col = author b,
               published_year_col = published_year b, genre_col = genre b, isbn_col = isbn b\<rparr>"
  from a have ok: "fits_columns b" "isbn b \<notin> set (map isbn_col (books db))"
      "auto_increment db \<notin> set (map id_col (books db))"
    using create_book_InrD by blast+
  then have made: "create_book b db =
           (Inr \<lparr>title = title b, author = author b, published_year = published_year b,
                 genre = genre b, isbn = isbn b, id_out = auto_increment db\<rparr>,
            \<lparr>books = books db @ [?row], auto_increment = auto_increment db + 1\<rparr>)"
    by (rule create_book_accepted)
  with a have o: "out = \<lparr>title = title b, author = author b, published_year = published_year b,
                 genre = genre b, isbn = isbn b, id_out = auto_increment db\<rparr>"
    by simp
  from made have m: "?row \<in> set (books (snd (create_book b db)))"
    by simp
  from o have p: "id_col ?row = id_out out \<and> title_col ?row = title b \<and> author_col ?row = author b"
    by simp
  from p m show "\<exists>r \<in> set (books (snd (create_book b db))).
         id_col r = id_out out \<and> title_col r = title b \<and> author_col r = author b"
    by (rule bexI [of _ "?row"])
  let ?b0 = "b\<lparr>title := [], author := []\<rparr>"
  let ?row0 = "\<lparr>id_col = auto_increment db, title_col = [], author_col = [],
               published_year_col = published_year b, genre_col = genre b, isbn_col = isbn b\<rparr>"
  from ok(1) have fit0: "fits_columns ?b0"
    by (rule fits_columns_blank)
  from ok(2) have new0: "isbn ?b0 \<notin> set (map isbn_col (books db))"
    by simp
  from create_book_accepted [OF fit0 new0 ok(3)] have made0: "create_book ?b0 db =
           (Inr \<lparr>title = [], author = [], published_year = published_year b,
                 genre = genre b, isbn = isbn b, id_out = auto_increment db\<rparr>,
            \<lparr>books = books db @ [?row0], auto_increment = auto_increment db + 1\<rparr>)"
    by simp
  then have m0: "?row0 \<in> set (books (snd (create_book ?b0 db)))"
    by simp
  from o have p0: "id_col ?row0 = id_out out \<and> title_col ?row0 = [] \<and> author_col ?row0 = []"
    by simp
  from p0 m0 show "\<exists>r \<in> set (books (snd (create_book ?b0 db))).
         id_col r = id_out out \<and> title_col r = [] \<and> author_col r = []"
    by (rule bexI [of _ "?row0"])
  from made0 o show "fst (create_book ?b0 db) = Inr (out\<lparr>title := [], author := []\<rparr>)"
    by simp
next
  assume a: "fst (update_book i b db) = Inr out"
  from a obtain r where q: "query_first i db = Some r"
    and fit: "fits_columns b"
    and uniq: "\<forall>r' \<in> set (books db). id_col r' \<noteq> i \<longrightarrow> isbn_col r' \<noteq> isbn b"
    using update_book_InrD by blast
  let ?f = "\<lambda>r. if id_col r = i then assign_fields b r else r"
  from q fit uniq have u: "update_book i b db =
           (Inr \<lparr>title = title b, author = author b, published_year = published_year b,
                 genre = genre b, isbn = isbn b, id_out = i\<rparr>,
            db\<lparr>books := map ?f (books db)\<rparr>)"
    by (rule update_book_accepted)
  then have bk: "books (snd (update_book i b db)) = map ?f (books db)"
    by simp
  from q have rin: "r \<in> set (books db)" and idr: "id_col r = i"
    using query_first_SomeD by blast+
  from rin have "?f r \<in> ?f ` set (books db)"
    by (rule imageI)
  then have m: "?f r \<in> set (books (snd (update_book i b db)))"
    by (simp only: bk set_map)
  from idr have p: "id_col (?f r) = i"
    by simp
  from p m show "\<exists>r \<in> set (books (snd (update_book i b db))). id_col r = i"
    by (rule bexI [of _ "?f r"])
  show "\<forall>r \<in> set (books (snd (update_book i b db))).
         id_col r = i \<longrightarrow> title_col r = title b \<and> author_col r = author b"
  proof (intro ballI impI)
    fix x
    assume "x \<in> set (books (snd (update_book i b db)))" and ix: "id_col x = i"
    then have "x \<in> set (map ?f (books db))"
      by (simp only: bk)
    from this ix have "title_col x = title b \<and> author_col x = author b \<and>
     published_year_col x = published_year b \<and> genre_col x = genre b \<and> isbn_col x = isbn b"
      by (rule assigned_rows)
    then show "title_col x = title b \<and> author_col x = author b"
      by blast
  qed
next
  assume a: "fst (update_book i b db) = Inr out"
  from a obtain r where q: "query_first i db = Some r"
    and fit: "fits_columns b"
    and uniq: "\<forall>r' \<in> set (books db). id_col r' \<noteq> i \<longrightarrow> isbn_col r' \<noteq> isbn b"
    using update_book_InrD by blast
  from q fit uniq have u: "update_book i b db =
           (Inr \<lparr>title = title b, author = author b, published_year = published_year b,
                 genre = genre b, isbn = isbn b, id_out = i\<rparr>,
            db\<lparr>books := map (\<lambda>r. if id_col r = i then assign_fields b r else r) (books db)\<rparr>)"
    by (rule update_book_accepted)
  with a have o: "out = \<lparr>title = title b, author = author b, published_year = published_year b,
                 genre = genre b, isbn = isbn b, id_out = i\<rparr>"
    by simp
  let ?b0 = "b\<lparr>title := [], author := []\<rparr>"
  let ?f0 = "\<lambda>r. if id_col r = i then assign_fields ?b0 r else r"
  from fit have fit0: "fits_columns ?b0"
    by (rule fits_columns_blank)
  from uniq have uniq0: "\<forall>r' \<in> set (books db). id_col r' \<noteq> i \<longrightarrow> isbn_col r' \<noteq> isbn ?b0"
    by simp
  from update_book_accepted [OF q fit0 uniq0] have u0: "update_book i ?b0 db =
           (Inr \<lparr>title = [], author = [], published_year = published_year b,
                 genre = genre b, isbn = isbn b, id_out = i\<rparr>,
            db\<lparr>books := map ?f0 (books db)\<rparr>)"
    by simp
  then have bk0: "books (snd (update_book i ?b0 db)) = map ?f0 (books db)"
    by simp
  show "\<forall>r \<in> set (books (snd (update_book i ?b0 db))).
         id_col r = i \<longrightarrow> title_col r = [] \<and> author_col r = []"
  proof (intro ballI impI)
    fix x
    assume "x \<in> set (books (snd (update_book i ?b0 db)))" and ix: "id_col x = i"
    then have "x \<in> set (map ?f0 (books db))"
      by (simp only: bk0)
    from this ix have "title_col x = title ?b0 \<and> author_col x = author ?b0 \<and>
     published_year_col x = published_year ?b0 \<and> genre_col x = genre ?b0 \<and> isbn_col x = isbn ?b0"
      by (rule assigned_rows)
    then show "title_col x = [] \<and> author_col x = []"
      by simp
  qed
  from u0 o show "fst (update_book i ?b0 db) = Inr (out\<lparr>title := [], author := []\<rparr>)"
    by simp
qed

text \<open>
  The sample book created on the empty table and book 1 of the two-book table updated,
  each once as given and once with title and author emptied.
\<close>

theorem title_author_stored_as_given_witness:
  "fst (create_book sample_book empty_database) =
     Inr \<lparr>title = ''A'', author = ''B'', published_year = 2000, genre = ''Fiction'',
          isbn = ''1111111111111'', id_out = 1\<rparr> \<and>
   fst (create_book (sample_book\<lparr>title := [], author := []\<rparr>) empty_database) =
     Inr \<lparr>title = [], author = [], published_year = 2000, genre = ''Fiction'',
          isbn = ''1111111111111'', id_out = 1\<rparr> \<and>
   fst (update_book 1 sample_book3 two_books_db) =
     Inr \<lparr>title = ''A3'', author = ''B3'', published_year = 1999, genre = ''Poetry'',
          isbn = ''3333333333333'', id_out = 1\<rparr> \<and>
   fst (update_book 1 (sample_book3\<lparr>title := [], author := []\<rparr>) two_books_db) =
     Inr \<lparr>title = [], author = [], published_year = 1999, genre = ''Poetry'',
          isbn = ''3333333333333'', id_out = 1\<rparr>"
proof -
  let ?o1 = "\<lparr>title = ''A'', author = ''B'', published_year = 2000, genre = ''Fiction'',
          isbn = ''1111111111111'', id_out = 1\<rparr>"
  let ?o3 = "\<lparr>title = ''A3'', author = ''B3'', published_year = 1999, genre = ''Poetry'',
          isbn = ''3333333333333'', id_out = 1\<rparr>"
  have c: "fst (create_book sample_book empty_database) = Inr ?o1"
    by (simp add: create_book_def commit_add_def refresh_def query_first_def fits_columns_def
        from_orm_def sample_book_def empty_database_def)
  have u: "fst (update_book 1 sample_book3 two_books_db) = Inr ?o3"
    by (simp add: update_book_def commit_update_def refresh_def query_first_def fits_columns_def
        from_orm_def assign_fields_def sample_book3_def two_books_db_def sample_row_def
        sample_row2_def)
  note t = title_author_stored_as_given [of sample_book empty_database ?o1]
  note t' = title_author_stored_as_given [of sample_book3 two_books_db ?o3 1]
  from t c have c0: "fst (create_book (sample_book\<lparr>title := [], author := []\<rparr>) empty_database) =
        Inr (?o1\<lparr>title := [], author := []\<rparr>)"
    by blast
  from t' u have u0: "fst (update_book 1 (sample_book3\<lparr>title := [], author := []\<rparr>) two_books_db) =
        Inr (?o3\<lparr>title := [], author := []\<rparr>)"
    by blast
  from c0 have c0': "fst (create_book (sample_book\<lparr>title := [], author := []\<rparr>) empty_database) =
     Inr \<lparr>title = [], author = [], published_year = 2000, genre = ''Fiction'',
          isbn = ''1111111111111'', id_out = 1\<rparr>"
    by simp
  from u0 have u0': "fst (update_book 1 (sample_book3\<lparr>title := [], author := []\<rparr>) two_books_db) =
     Inr \<lparr>title = [], author = [], published_year = 1999, genre = ''Poetry'',
          isbn = ''3333333333333'', id_out = 1\<rparr>"
    by simp
  from c c0' u u0' show ?thesis
    by (intro conjI)
qed

text \<open>
  The claim as it stands fails: a body whose title and author are the empty string
  passes the schema, and posted against the empty table it is stored as a record with
  an empty title and an empty author; an update with such a body empties the title and
  the author of the stored book.
\<close>

theorem empty_title_stored_counterexample:
  "validate strict_str lax_int untitled_body =
     Some \<lparr>title = [], author = [], published_year = 2000, genre = ''Fiction'',
           isbn = ''1111111111111''\<rparr> \<and>
   endpoint strict_str lax_int (PostBooks untitled_body) empty_database =
     (Inr (JObj [(''title'', JStr []), (''author'', JStr []), (''published_year'', JInt 2000),
                 (''genre'', JStr ''Fiction''), (''isbn'', JStr ''1111111111111''),
                 (''id'', JInt 1)]),
      \<lparr>books = [\<lparr>id_col = 1, title_col = [], author_col = [], published_year_col = 2000,
                  genre_col = ''Fiction'', isbn_col = ''1111111111111''\<rparr>],
       auto_increment = 2\<rparr>) \<and>
   books (snd (endpoint strict_str lax_int (PutBook 1 untitled_body) one_book_db)) =
     [\<lparr>id_col = 1, title_col = [], author_col = [], published_year_col = 2000,
       genre_col = ''Fiction'', isbn_col = ''1111111111111''\<rparr>]"
  by (simp add: validate_def untitled_body_def endpoint_def create_book_def commit_add_def
      update_book_def commit_update_def assign_fields_def
      refresh_def query_first_def fits_columns_def from_orm_def to_json_def
      empty_database_def one_book_db_def sample_row_def)

section \<open>Validation comes before persistence\<close>













section \<open>The session is closed on every path\<close>

lemma get_db_log:
  "session_log (snd (get_db during s)) =
     session_log s @ [SessionOpened (sessions_made s), SessionClosed (sessions_made s)] \<and>
   sessions_made (snd (get_db during s)) = Suc (sessions_made s) \<and>
   fst (get_db during s) = fst (during (store s)) \<and>
   store (snd (get_db during s)) = snd (during (store s))"
  by (cases "fst (during (store s))") (simp_all add: get_db_def Let_def)

text \<open>
  Claim C8. For every request handled by any of the five routes, the session opened at
  the start of the request is closed on every exit path, whether the handler returns,
  the body is rejected, the handler raises the 404 or the storage raises: the log of
  the request is one opening followed by one closing of the same session, so the
  closing runs exactly once for the session acquired. The same holds for any code run
  inside \<^verbatim>\<open>get_db\<close>, whatever it returns or raises.
\<close>

theorem session_closed_on_every_path:
  "session_log (snd (serve st it req s)) =
     session_log s @ [SessionOpened (sessions_made s), SessionClosed (sessions_made s)] \<and>
   sessions_made (snd (serve st it req s)) = Suc (sessions_made s) \<and>
   session_log (snd (get_db during s)) =
     session_log s @ [SessionOpened (sessions_made s), SessionClosed (sessions_made s)] \<and>
   (fst (during (store s)) = Inl e \<longrightarrow>
      fst (get_db during s) = Inl e \<and>
      session_log (snd (get_db during s)) =
        session_log s @ [SessionOpened (sessions_made s), SessionClosed (sessions_made s)]) \<and>
   ((\<forall>x \<in> set (session_log s). x \<noteq> SessionClosed (sessions_made s)) \<longrightarrow>
      count_list (session_log (snd (serve st it req s))) (SessionClosed (sessions_made s)) = 1) \<and>
   ((\<forall>x \<in> set (session_log s). x \<noteq> SessionOpened (sessions_made s)) \<longrightarrow>
      count_list (session_log (snd (serve st it req s))) (SessionOpened (sessions_made s)) = 1)"
proof -
  let ?sid = "sessions_made s"
  have g: "session_log (snd (get_db during s)) =
     session_log s @ [SessionOpened ?sid, SessionClosed ?sid]" for during :: "database \<Rightarrow> (exn + 'b) \<times> database"
    using get_db_log [of during s] by blast
  have l: "session_log (snd (serve st it req s)) =
     session_log s @ [SessionOpened ?sid, SessionClosed ?sid]"
    using get_db_log [of "endpoint st it req" s] by (simp add: serve_def Let_def)
  have m: "sessions_made (snd (serve st it req s)) = Suc ?sid"
    using get_db_log [of "endpoint st it req" s] by (simp add: serve_def Let_def)
  have x: "fst (during (store s)) = Inl e \<longrightarrow>
      fst (get_db during s) = Inl e \<and>
      session_log (snd (get_db during s)) =
        session_log s @ [SessionOpened ?sid, SessionClosed ?sid]"
    using get_db_log [of during s] by simp
  have c: "(\<forall>x \<in> set (session_log s). x \<noteq> SessionClosed ?sid) \<longrightarrow>
      count_list (session_log (snd (serve st it req s))) (SessionClosed ?sid) = 1"
  proof
    assume "\<forall>x \<in> set (session_log s). x \<noteq> SessionClosed ?sid"
    then have "SessionClosed ?sid \<notin> set (session_log s)"
      by blast
    then have "count_list (session_log s) (SessionClosed ?sid) = 0"
      by (simp add: count_list_0_iff)
    then show "count_list (session_log (snd (serve st it req s))) (SessionClosed ?sid) = 1"
      by (simp add: l)
  qed
  have o: "(\<forall>x \<in> set (session_log s). x \<noteq> SessionOpened ?sid) \<longrightarrow>
      count_list (session_log (snd (serve st it req s))) (SessionOpened ?sid) = 1"
  proof
    assume "\<forall>x \<in> set (session_log s). x \<noteq> SessionOpened ?sid"
    then have "SessionOpened ?sid \<notin> set (session_log s)"
      by blast
    then have "count_list (session_log s) (SessionOpened ?sid) = 0"
      by (simp add: count_list_0_iff)
    then show "count_list (session_log (snd (serve st it req s))) (SessionOpened ?sid) = 1"
      by (simp add: l)
  qed
  from l m g [of during] x c o show ?thesis
    by (intro conjI)
qed

text \<open>
  One request of each kind of exit against the idle server: a listing, a 404, a
  rejected body, a refused insert and a delete.
\<close>

theorem session_closed_on_every_path_witness:
  "\<not> (\<exists>x \<in> set (session_log idle_server). x = SessionClosed 0) \<and>
   fst (serve strict_str lax_int GetBooks idle_server) =
     OK (JArr [JObj [(''title'', JStr ''A''), (''author'', JStr ''B''),
                     (''published_year'', JInt 2000), (''genre'', JStr ''Fiction''),
                     (''isbn'', JStr ''1111111111111''), (''id'', JInt 1)]]) \<and>
   session_log (snd (serve strict_str lax_int GetBooks idle_server)) =
     [SessionOpened 0, SessionClosed 0] \<and>
   status_code (fst (serve strict_str lax_int (GetBook 7) idle_server)) = 404 \<and>
   session_log (snd (serve strict_str lax_int (GetBook 7) idle_server)) =
     [SessionOpened 0, SessionClosed 0] \<and>
   status_code (fst (serve strict_str lax_int (PostBooks JNull) idle_server)) = 422 \<and>
   session_log (snd (serve strict_str lax_int (PostBooks JNull) idle_server)) =
     [SessionOpened 0, SessionClosed 0] \<and>
   status_code (fst (serve strict_str lax_int (PostBooks sample_body) idle_server)) = 500 \<and>
   session_log (snd (serve strict_str lax_int (PostBooks sample_body) idle_server)) =
     [SessionOpened 0, SessionClosed 0] \<and>
   status_code (fst (serve strict_str lax_int (DeleteBook 1) idle_server)) = 200 \<and>
   session_log (snd (serve strict_str lax_int (DeleteBook 1) idle_server)) =
     [SessionOpened 0, SessionClosed 0] \<and>
   count_list (session_log (snd (serve strict_str lax_int (DeleteBook 1) idle_server)))
     (SessionClosed 0) = 1"
proof -
  have z: "sessions_made idle_server = 0" "session_log idle_server = []"
    by (simp_all add: idle_server_def)
  have h: "\<forall>x \<in> set (session_log idle_server). x \<noteq> SessionClosed (sessions_made idle_server)"
    by (simp add: idle_server_def)
  then have h': "\<not> (\<exists>x \<in> set (session_log idle_server). x = SessionClosed 0)"
    by (simp add: idle_server_def)
  have log: "session_log (snd (serve strict_str lax_int req idle_server)) =
     [SessionOpened 0, SessionClosed 0]" for req
    using session_closed_on_every_path
      [where st = strict_str and it = lax_int and req = req and s = idle_server
         and during = "endpoint strict_str lax_int req" and e = IntegrityError] z
    by simp
  have cnt: "count_list (session_log (snd (serve strict_str lax_int (DeleteBook 1) idle_server)))
     (SessionClosed 0) = 1"
    using session_closed_on_every_path
      [where st = strict_str and it = lax_int and req = "DeleteBook 1" and s = idle_server
         and during = "endpoint strict_str lax_int (DeleteBook 1)" and e = IntegrityError] h z
    by simp
  have r1: "fst (serve strict_str lax_int GetBooks idle_server) =
     OK (JArr [JObj [(''title'', JStr ''A''), (''author'', JStr ''B''),
                     (''published_year'', JInt 2000), (''genre'', JStr ''Fiction''),
                     (''isbn'', JStr ''1111111111111''), (''id'', JInt 1)]])"
    by (simp add: serve_def get_db_def Let_def endpoint_def get_books_def from_orm_def
        to_json_def idle_server_def one_book_db_def sample_row_def)
  have r2: "status_code (fst (serve strict_str lax_int (GetBook 7) idle_server)) = 404"
    by (simp add: serve_def get_db_def Let_def endpoint_def get_book_def query_first_def
        not_found_def idle_server_def one_book_db_def sample_row_def)
  have r3: "status_code (fst (serve strict_str lax_int (PostBooks JNull) idle_server)) = 422"
    by (simp add: serve_def get_db_def Let_def endpoint_def validate_def)
  have r4: "status_code (fst (serve strict_str lax_int (PostBooks sample_body) idle_server)) = 500"
    by (simp add: serve_def get_db_def Let_def endpoint_def validate_def sample_body_def
        create_book_def commit_add_def fits_columns_def idle_server_def one_book_db_def
        sample_row_def)
  have r5: "status_code (fst (serve strict_str lax_int (DeleteBook 1) idle_server)) = 200"
    by (simp add: serve_def get_db_def Let_def endpoint_def delete_book_def query_first_def
        idle_server_def one_book_db_def sample_row_def)
  from h' r1 log [of GetBooks] r2 log [of "GetBook 7"] r3 log [of "PostBooks JNull"]
    r4 log [of "PostBooks sample_body"] r5 log [of "DeleteBook 1"] cnt
  show ?thesis
    by (intro conjI)
qed

section \<open>A write touches only its target row\<close>

lemma nth_other_rows_assign:
  assumes "k < length xs" and "id_col (xs ! k) \<noteq> n"
  shows "map (\<lambda>r. if id_col r = n then assign_fields b r else r) xs ! k = xs ! k"
  using assms by simp

text \<open>
  Claim C9. Every write operation touches only its target row. A successful POST appends
  one row, the one it returns, and leaves the rows that were there as they were and
  where they were. A PUT or DELETE of id \<open>n\<close> leaves every record whose id differs from
  \<open>n\<close> unchanged and in place: the rows of other ids are the same before and after,
  in the same order, and after a PUT each of them stands at its old position. A PUT or
  DELETE that returns 404, which happens exactly when no record has the id, leaves the
  entire stored state unchanged.
\<close>

theorem writes_touch_only_target_row:
  "(fst (create_book b db) = Inr out \<longrightarrow>
      books (snd (create_book b db)) =
        books db @ [\<lparr>id_col = id_out out, title_col = title b, author_col = author b,
                      published_year_col = published_year b, genre_col = genre b,
                      isbn_col = isbn b\<rparr>] \<and>
      id_out out \<notin> set (map id_col (books db))) \<and>
   filter (\<lambda>r. id_col r \<noteq> n) (books (snd (update_book n b db))) =
     filter (\<lambda>r. id_col r \<noteq> n) (books db) \<and>
   length (books (snd (update_book n b db))) = length (books db) \<and>
   (\<forall>k < length (books db). id_col (books db ! k) \<noteq> n \<longrightarrow>
      books (snd (update_book n b db)) ! k = books db ! k) \<and>
   books (snd (delete_book n db)) = filter (\<lambda>r. id_col r \<noteq> n) (books db) \<and>
   filter (\<lambda>r. id_col r \<noteq> n) (books (snd (delete_book n db))) =
     filter (\<lambda>r. id_col r \<noteq> n) (books db) \<and>
   auto_increment (snd (update_book n b db)) = auto_increment db \<and>
   auto_increment (snd (delete_book n db)) = auto_increment db \<and>
   (fst (update_book n b db) = Inl (HTTPException 404 ''Book not found'') \<longrightarrow>
      snd (update_book n b db) = db) \<and>
   (fst (delete_book n db) = Inl (HTTPException 404 ''Book not found'') \<longrightarrow>
      snd (delete_book n db) = db) \<and>
   ((\<forall>r \<in> set (books db). id_col r \<noteq> n) \<longleftrightarrow>
      fst (update_book n b db) = Inl (HTTPException 404 ''Book not found'')) \<and>
   ((\<forall>r \<in> set (books db). id_col r \<noteq> n) \<longleftrightarrow>
      fst (delete_book n db) = Inl (HTTPException 404 ''Book not found''))"
proof -
  let ?f = "\<lambda>r. if id_col r = n then assign_fields b r else r"
  let ?nf = "Inl (HTTPException 404 ''Book not found'')"
  have create: "fst (create_book b db) = Inr out \<longrightarrow>
      books (snd (create_book b db)) =
        books db @ [\<lparr>id_col = id_out out, title_col = title b, author_col = author b,
                      published_year_col = published_year b, genre_col = genre b,
                      isbn_col = isbn b\<rparr>] \<and>
      id_out out \<notin> set (map id_col (books db))"
  proof
    assume a: "fst (create_book b db) = Inr out"
    then have ok: "fits_columns b" "isbn b \<notin> set (map isbn_col (books db))"
        "auto_increment db \<notin> set (map id_col (books db))"
      using create_book_InrD by blast+
    then have made: "create_book b db =
           (Inr \<lparr>title = title b, author = author b, published_year = published_year b,
                 genre = genre b, isbn = isbn b, id_out = auto_increment db\<rparr>,
            \<lparr>books = books db @
               [\<lparr>id_col = auto_increment db, title_col = title b, author_col = author b,
                 published_year_col = published_year b, genre_col = genre b,
                 isbn_col = isbn b\<rparr>],
             auto_increment = auto_increment db + 1\<rparr>)"
      by (rule create_book_accepted)
    with a have o: "id_out out = auto_increment db"
      by auto
    from made o ok(3) show "books (snd (create_book b db)) =
        books db @ [\<lparr>id_col = id_out out, title_col = title b, author_col = author b,
                      published_year_col = published_year b, genre_col = genre b,
                      isbn_col = isbn b\<rparr>] \<and>
      id_out out \<notin> set (map id_col (books db))"
      by simp
  qed
  from update_book_state [of n b db]
  consider "snd (update_book n b db) = db"
    | "snd (update_book n b db) = db\<lparr>books := map ?f (books db)\<rparr>"
    by blast
  then have upd: "filter (\<lambda>r. id_col r \<noteq> n) (books (snd (update_book n b db))) =
       filter (\<lambda>r. id_col r \<noteq> n) (books db) \<and>
     length (books (snd (update_book n b db))) = length (books db) \<and>
     (\<forall>k < length (books db). id_col (books db ! k) \<noteq> n \<longrightarrow>
        books (snd (update_book n b db)) ! k = books db ! k) \<and>
     auto_increment (snd (update_book n b db)) = auto_increment db"
  proof cases
    case 1
    then show ?thesis by simp
  next
    case 2
    then have bk: "books (snd (update_book n b db)) = map ?f (books db)"
      and ai: "auto_increment (snd (update_book n b db)) = auto_increment db"
      by simp_all
    have f: "filter (\<lambda>r. id_col r \<noteq> n) (map ?f (books db)) = filter (\<lambda>r. id_col r \<noteq> n) (books db)"
      by (rule filter_other_rows_assign)
    have l: "length (map ?f (books db)) = length (books db)"
      by simp
    have p: "\<forall>k < length (books db). id_col (books db ! k) \<noteq> n \<longrightarrow>
        map ?f (books db) ! k = books db ! k"
      using nth_other_rows_assign by blast
    from f l p ai show ?thesis
      by (simp only: bk simp_thms)
  qed
  have del: "books (snd (delete_book n db)) = filter (\<lambda>r. id_col r \<noteq> n) (books db) \<and>
     auto_increment (snd (delete_book n db)) = auto_increment db"
  proof (cases "query_first n db")
    case None
    then have "\<forall>r \<in> set (books db). id_col r \<noteq> n"
      by (auto simp: query_first_None)
    then have "filter (\<lambda>r. id_col r \<noteq> n) (books db) = books db"
      by (simp only: filter_True)
    with None show ?thesis
      by (simp add: delete_book_def)
  next
    case (Some r)
    then have "id_col r = n"
      using query_first_SomeD by blast
    with Some show ?thesis
      by (simp add: delete_book_def commit_delete_def)
  qed
  then have del2: "filter (\<lambda>r. id_col r \<noteq> n) (books (snd (delete_book n db))) =
     filter (\<lambda>r. id_col r \<noteq> n) (books db)"
    by simp
  have u404: "((\<forall>r \<in> set (books db). id_col r \<noteq> n) \<longleftrightarrow> fst (update_book n b db) = ?nf) \<and>
      (fst (update_book n b db) = ?nf \<longrightarrow> snd (update_book n b db) = db)"
  proof (cases "query_first n db")
    case None
    then have "\<forall>r \<in> set (books db). id_col r \<noteq> n"
      by (auto simp: query_first_None)
    with None show ?thesis
      by (simp add: update_book_def not_found_def)
  next
    case (Some r)
    then have m: "r \<in> set (books db)" "id_col r = n"
      using query_first_SomeD by blast+
    then have present: "\<not> (\<forall>r \<in> set (books db). id_col r \<noteq> n)"
      by blast
    from Some have "fst (update_book n b db) \<noteq> ?nf"
      by (simp add: update_book_def commit_update_def refresh_def split: option.splits)
    with present show ?thesis
      by simp
  qed
  have d404: "((\<forall>r \<in> set (books db). id_col r \<noteq> n) \<longleftrightarrow> fst (delete_book n db) = ?nf) \<and>
      (fst (delete_book n db) = ?nf \<longrightarrow> snd (delete_book n db) = db)"
  proof (cases "query_first n db")
    case None
    then have "\<forall>r \<in> set (books db). id_col r \<noteq> n"
      by (auto simp: query_first_None)
    with None show ?thesis
      by (simp add: delete_book_def not_found_def)
  next
    case (Some r)
    then have m: "r \<in> set (books db)" "id_col r = n"
      using query_first_SomeD by blast+
    then have present: "\<not> (\<forall>r \<in> set (books db). id_col r \<noteq> n)"
      by blast
    from Some have "fst (delete_book n db) \<noteq> ?nf"
      by (simp add: delete_book_def)
    with present show ?thesis
      by simp
  qed
  from create upd del del2 u404 d404 show ?thesis
    by (intro conjI) blast+
qed

text \<open>
  On the two-book table: a created third book is appended, an update and a delete of
  book 1 leave book 2 as it is, and an update and a delete of the unknown id 7 leave
  the table as it is.
\<close>

theorem writes_touch_only_target_row_witness:
  "fst (create_book sample_book3 two_books_db) =
     Inr \<lparr>title = ''A3'', author = ''B3'', published_year = 1999, genre = ''Poetry'',
          isbn = ''3333333333333'', id_out = 3\<rparr> \<and>
   books (snd (create_book sample_book3 two_books_db)) =
     [sample_row, sample_row2,
      \<lparr>id_col = 3, title_col = ''A3'', author_col = ''B3'', published_year_col = 1999,
       genre_col = ''Poetry'', isbn_col = ''3333333333333''\<rparr>] \<and>
   filter (\<lambda>r. id_col r \<noteq> 1) (books (snd (update_book 1 sample_book3 two_books_db))) =
     [sample_row2] \<and>
   books (snd (delete_book 1 two_books_db)) = [sample_row2] \<and>
   \<not> (\<exists>r \<in> set (books two_books_db). id_col r = 7) \<and>
   snd (update_book 7 sample_book3 two_books_db) = two_books_db \<and>
   snd (delete_book 7 two_books_db) = two_books_db"
proof -
  let ?o = "\<lparr>title = ''A3'', author = ''B3'', published_year = 1999, genre = ''Poetry'',
          isbn = ''3333333333333'', id_out = 3\<rparr>"
  have c: "fst (create_book sample_book3 two_books_db) = Inr ?o"
    by (simp add: create_book_def commit_add_def refresh_def query_first_def fits_columns_def
        from_orm_def sample_book3_def two_books_db_def sample_row_def sample_row2_def)
  have absent: "\<forall>r \<in> set (books two_books_db). id_col r \<noteq> 7"
    by (simp add: two_books_db_def sample_row_def sample_row2_def)
  have others: "filter (\<lambda>r. id_col r \<noteq> 1) (books two_books_db) = [sample_row2]"
    by (simp add: two_books_db_def sample_row_def sample_row2_def)
  note t = writes_touch_only_target_row [where b = sample_book3 and db = two_books_db and out = ?o and n = 1]
  note t7 = writes_touch_only_target_row [where b = sample_book3 and db = two_books_db and out = ?o and n = 7]
  from t c have "books (snd (create_book sample_book3 two_books_db)) =
        books two_books_db @ [\<lparr>id_col = id_out ?o, title_col = title sample_book3,
                      author_col = author sample_book3,
                      published_year_col = published_year sample_book3,
                      genre_col = genre sample_book3, isbn_col = isbn sample_book3\<rparr>]"
    by blast
  then have rows: "books (snd (create_book sample_book3 two_books_db)) =
     [sample_row, sample_row2,
      \<lparr>id_col = 3, title_col = ''A3'', author_col = ''B3'', published_year_col = 1999,
       genre_col = ''Poetry'', isbn_col = ''3333333333333''\<rparr>]"
    by (simp add: two_books_db_def sample_book3_def)
  from t have "filter (\<lambda>r. id_col r \<noteq> 1) (books (snd (update_book 1 sample_book3 two_books_db))) =
     filter (\<lambda>r. id_col r \<noteq> 1) (books two_books_db)"
    by blast
  with others have u: "filter (\<lambda>r. id_col r \<noteq> 1) (books (snd (update_book 1 sample_book3 two_books_db))) =
     [sample_row2]"
    by simp
  from t have "books (snd (delete_book 1 two_books_db)) =
     filter (\<lambda>r. id_col r \<noteq> 1) (books two_books_db)"
    by blast
  with others have d: "books (snd (delete_book 1 two_books_db)) = [sample_row2]"
    by simp
  from t7 absent have u7: "snd (update_book 7 sample_book3 two_books_db) = two_books_db"
    and d7: "snd (delete_book 7 two_books_db) = two_books_db"
    by blast+
  from absent have absent': "\<not> (\<exists>r \<in> set (books two_books_db). id_col r = 7)"
    by blast
  from c rows u d absent' u7 d7 show ?thesis
    by (intro conjI)
qed

section \<open>An update to the isbn of another book\<close>

text \<open>
  Claim C10. \<^verbatim>\<open>PUT /books/{book_id}\<close> makes no check of its own for a repeated
  \<^verbatim>\<open>isbn\<close>. In every state that holds two books, updating one book's \<^verbatim>\<open>isbn\<close> to the
  other's goes to the storage layer as it is; there the statement is refused, by the
  unique column when the row fits its columns, and the failure leaves the handler as
  an exception that is not the 404 and reaches the client as a server error, status
  500 and not 404 or 409, with the stored state unchanged.
\<close>

theorem update_duplicate_isbn_server_error:
  assumes "r1 \<in> set (books db)"
    and "r2 \<in> set (books db)"
    and "id_col r1 \<noteq> id_col r2"
    and "isbn b = isbn_col r2"
  shows "(update_book (id_col r1) b db = (Inl IntegrityError, db) \<or>
          update_book (id_col r1) b db = (Inl DataError, db)) \<and>
         (fits_columns b \<longrightarrow>
            commit_update (id_col r1) b db = Inl IntegrityError \<and>
            update_book (id_col r1) b db = (Inl IntegrityError, db)) \<and>
         fst (update_book (id_col r1) b db) \<noteq> Inl (HTTPException 404 ''Book not found'') \<and>
         respond (map_sum (\<lambda>e. e) to_json (fst (update_book (id_col r1) b db))) = InternalServerError \<and>
         status_code (respond (map_sum (\<lambda>e. e) to_json (fst (update_book (id_col r1) b db)))) = 500 \<and>
         snd (update_book (id_col r1) b db) = db"
proof -
  from assms(1) have "query_first (id_col r1) db \<noteq> None"
    by (simp add: query_first_None)
  then obtain r where q: "query_first (id_col r1) db = Some r"
    by blast
  then have idr: "id_col r = id_col r1"
    using query_first_SomeD by blast
  from assms(2,3,4) have clash: "\<exists>r' \<in> set (books db). id_col r' \<noteq> id_col r1 \<and> isbn_col r' = isbn b"
    by (intro bexI [of _ r2]) simp_all
  then have cu: "commit_update (id_col r1) b db = (if fits_columns b then Inl IntegrityError else Inl DataError)"
    by (simp add: commit_update_def)
  with q idr have u: "update_book (id_col r1) b db =
      ((if fits_columns b then Inl IntegrityError else Inl DataError), db)"
    by (simp add: update_book_def)
  from u cu show ?thesis
    by (cases "fits_columns b") simp_all
qed

text \<open>Book 1 of the two-book table updated with the \<^verbatim>\<open>isbn\<close> of book 2.\<close>

theorem update_duplicate_isbn_server_error_witness:
  "sample_row \<in> set (books two_books_db) \<and> sample_row2 \<in> set (books two_books_db) \<and>
   id_col sample_row \<noteq> id_col sample_row2 \<and>
   isbn (sample_book\<lparr>isbn := ''2222222222222''\<rparr>) = isbn_col sample_row2 \<and>
   update_book 1 (sample_book\<lparr>isbn := ''2222222222222''\<rparr>) two_books_db
     = (Inl IntegrityError, two_books_db) \<and>
   status_code (respond (map_sum (\<lambda>e. e) to_json
      (fst (update_book 1 (sample_book\<lparr>isbn := ''2222222222222''\<rparr>) two_books_db)))) = 500"
proof -
  let ?b = "sample_book\<lparr>isbn := ''2222222222222''\<rparr>"
  have h1: "sample_row \<in> set (books two_books_db)"
    by (simp add: two_books_db_def)
  have h2: "sample_row2 \<in> set (books two_books_db)"
    by (simp add: two_books_db_def)
  have h3: "id_col sample_row \<noteq> id_col sample_row2"
    by (simp add: sample_row_def sample_row2_def)
  have h4: "isbn ?b = isbn_col sample_row2"
    by (simp add: sample_row2_def)
  have fit: "fits_columns ?b"
    by (simp add: fits_columns_def sample_book_def)
  have one: "id_col sample_row = 1"
    by (simp add: sample_row_def)
  note t = update_duplicate_isbn_server_error [OF h1 h2 h3 h4]
  from t fit have u: "update_book (id_col sample_row) ?b two_books_db = (Inl IntegrityError, two_books_db)"
    by blast
  from t have s: "status_code (respond (map_sum (\<lambda>e. e) to_json
      (fst (update_book (id_col sample_row) ?b two_books_db)))) = 500"
    by blast
  from u one have u': "update_book 1 ?b two_books_db = (Inl IntegrityError, two_books_db)"
    by simp
  from s one have s': "status_code (respond (map_sum (\<lambda>e. e) to_json
      (fst (update_book 1 ?b two_books_db)))) = 500"
    by simp
  from h1 h2 h3 h4 u' s' show ?thesis
    by (intro conjI)
qed

end
